theory Spec2Isabelle
  imports Main "HOL-Library.Word"
begin

section \<open>JavaScript strings\<close>

text \<open>
  A JavaScript string is a sequence of UTF-16 code units. \<open>str\<close> embeds an ASCII
  literal; code units beyond ASCII are written as numbers.
\<close>

type_synonym code_unit = "16 word"
type_synonym jsstring = "code_unit list"

definition str :: "string \<Rightarrow> jsstring" where
  "str s = map of_char s"

subsection \<open>Character classes of the regular expressions\<close>

text \<open>\<^verbatim>\<open>[A-Z]\<close>\<close>

definition is_upper :: "code_unit \<Rightarrow> bool" where
  "is_upper c = (0x41 \<le> c \<and> c \<le> 0x5A)"

text \<open>\<^verbatim>\<open>[a-z]\<close>\<close>

definition is_lower :: "code_unit \<Rightarrow> bool" where
  "is_lower c = (0x61 \<le> c \<and> c \<le> 0x7A)"

text \<open>\<^verbatim>\<open>\d\<close>, that is \<^verbatim>\<open>[0-9]\<close>\<close>

definition is_digit :: "code_unit \<Rightarrow> bool" where
  "is_digit c = (0x30 \<le> c \<and> c \<le> 0x39)"

text \<open>\<^verbatim>\<open>[A-Z0-9]\<close>\<close>

definition is_upper_digit :: "code_unit \<Rightarrow> bool" where
  "is_upper_digit c = (is_upper c \<or> is_digit c)"

text \<open>\<^verbatim>\<open>[a-zA-Z0-9]\<close>\<close>

definition is_alnum :: "code_unit \<Rightarrow> bool" where
  "is_alnum c = (is_lower c \<or> is_upper c \<or> is_digit c)"

text \<open>
  The word characters of \<^verbatim>\<open>\b\<close> and \<^verbatim>\<open>\w\<close> (no \<^verbatim>\<open>u\<close> or \<^verbatim>\<open>i\<close> flag):
  \<^verbatim>\<open>[A-Za-z0-9_]\<close>.
\<close>

definition is_word :: "code_unit \<Rightarrow> bool" where
  "is_word c = (is_alnum c \<or> c = 0x5F)"

text \<open>
  \<^verbatim>\<open>\s\<close>: the ECMAScript WhiteSpace and LineTerminator code points (tab, LF, VT, FF,
  CR, space, NBSP, U+1680, U+2000 to U+200A, LS, PS, U+202F, U+205F, U+3000, BOM).
\<close>

definition is_space :: "code_unit \<Rightarrow> bool" where
  "is_space c = ((0x09 \<le> c \<and> c \<le> 0x0D) \<or> c = 0x20 \<or> c = 0xA0 \<or> c = 0x1680
     \<or> (0x2000 \<le> c \<and> c \<le> 0x200A) \<or> c = 0x2028 \<or> c = 0x2029 \<or> c = 0x202F
     \<or> c = 0x205F \<or> c = 0x3000 \<or> c = 0xFEFF)"

text \<open>\<^verbatim>\<open>[_\-\s\/]\<close>, the separators that may follow a ticket\<close>

definition is_separator :: "code_unit \<Rightarrow> bool" where
  "is_separator c = (c = 0x5F \<or> c = 0x2D \<or> is_space c \<or> c = 0x2F)"

text \<open>\<^verbatim>\<open>[^?\s]\<close>\<close>

definition is_url_tail :: "code_unit \<Rightarrow> bool" where
  "is_url_tail c = (\<not> (c = 0x3F \<or> is_space c))"

definition is_char :: "char \<Rightarrow> code_unit \<Rightarrow> bool" where
  "is_char a c = (c = of_char a)"

section \<open>A backtracking matcher for the regular expressions of the source\<close>

text \<open>
  The fragment of ECMAScript regular expressions that the source uses: a pattern is a
  sequence of nodes. \<open>Cls P\<close> consumes one code unit of a class, \<open>Star P\<close> is the
  greedy \<^verbatim>\<open>[...]*\<close> of a class, \<open>Alt a b\<close> is the ordered choice \<^verbatim>\<open>(?:a|b)\<close>,
  \<open>Look a\<close> the lookahead \<^verbatim>\<open>(?=a)\<close>, \<open>WordB\<close> is \<^verbatim>\<open>\b\<close> and \<open>End\<close> is \<^verbatim>\<open>$\<close>
  (no \<^verbatim>\<open>m\<close> flag: the end of the input only).
\<close>

datatype node =
    Cls "code_unit \<Rightarrow> bool"
  | Star "code_unit \<Rightarrow> bool"
  | Alt "node list" "node list"
  | Look "node list"
  | WordB
  | End

text \<open>\<^verbatim>\<open>[...]+\<close>, \<^verbatim>\<open>(?:a)?\<close> and a literal text\<close>

definition Plus :: "(code_unit \<Rightarrow> bool) \<Rightarrow> node list" where
  "Plus P = [Cls P, Star P]"

definition Opt :: "node list \<Rightarrow> node" where
  "Opt a = Alt a []"

definition Lit :: "string \<Rightarrow> node list" where
  "Lit s = map (\<lambda>a. Cls (is_char a)) s"

fun weight :: "node \<Rightarrow> nat" and weights :: "node list \<Rightarrow> nat" where
  "weight (Cls P) = 1"
| "weight (Star P) = 1"
| "weight (Alt a b) = Suc (weights a + weights b)"
| "weight (Look a) = Suc (weights a)"
| "weight WordB = 1"
| "weight End = 1"
| "weights [] = 0"
| "weights (n # ns) = weight n + weights ns"

lemma weights_append [simp]: "weights (a @ b) = weights a + weights b"
  by (induction a) simp_all

definition word_before :: "code_unit option \<Rightarrow> bool" where
  "word_before p = (case p of None \<Rightarrow> False | Some c \<Rightarrow> is_word c)"

definition word_after :: "jsstring \<Rightarrow> bool" where
  "word_after s = (case s of [] \<Rightarrow> False | c # _ \<Rightarrow> is_word c)"

text \<open>
  \<open>rmatch ns p s\<close> matches the pattern \<open>ns\<close> at one position of the input: \<open>s\<close> is
  the input from that position on and \<open>p\<close> the code unit before it (\<open>None\<close> at the
  start of the input). It returns the number of code units of the first match that
  backtracking finds, or \<open>None\<close>. The rest of the pattern is the continuation, so
  that a failure later in the pattern comes back to the last choice: a greedy star first
  tries one more code unit, an alternative first tries its left branch.
\<close>

function rmatch :: "node list \<Rightarrow> code_unit option \<Rightarrow> jsstring \<Rightarrow> nat option" where
  "rmatch [] p s = Some 0"
| "rmatch (Cls P # r) p [] = None"
| "rmatch (Cls P # r) p (c # cs) =
     (if P c then map_option Suc (rmatch r (Some c) cs) else None)"
| "rmatch (Star P # r) p [] = rmatch r p []"
| "rmatch (Star P # r) p (c # cs) =
     (if P c then
        (case rmatch (Star P # r) (Some c) cs of
           Some n \<Rightarrow> Some (Suc n)
         | None \<Rightarrow> rmatch r p (c # cs))
      else rmatch r p (c # cs))"
| "rmatch (Alt a b # r) p s =
     (case rmatch (a @ r) p s of
        Some n \<Rightarrow> Some n
      | None \<Rightarrow> rmatch (b @ r) p s)"
| "rmatch (Look a # r) p s =
     (case rmatch a p s of
        Some n \<Rightarrow> rmatch r p s
      | None \<Rightarrow> None)"
| "rmatch (WordB # r) p s =
     (if word_before p \<noteq> word_after s then rmatch r p s else None)"
| "rmatch (End # r) p s = (if s = [] then rmatch r p s else None)"
  by pat_completeness auto
termination
  by (relation "measures [\<lambda>(ns, p, s). weights ns, \<lambda>(ns, p, s). length s]") auto

lemma rmatch_le: "rmatch ns p s = Some n \<Longrightarrow> n \<le> length s"
  by (induction ns p s arbitrary: n rule: rmatch.induct)
     (auto split: if_splits option.splits)

text \<open>
  \<^verbatim>\<open>text.match(re)\<close> for a global \<open>re\<close>: the matches from left to right, each search
  starting where the match before it ended; an empty match moves on by one code unit.
  \<^verbatim>\<open>|| []\<close> turns the \<^verbatim>\<open>null\<close> of no match into the empty list.
\<close>

function match_all :: "node list \<Rightarrow> code_unit option \<Rightarrow> jsstring \<Rightarrow> jsstring list" where
  "match_all re p s =
     (case rmatch re p s of
        None \<Rightarrow> (case s of [] \<Rightarrow> [] | c # cs \<Rightarrow> match_all re (Some c) cs)
      | Some 0 \<Rightarrow> [] # (case s of [] \<Rightarrow> [] | c # cs \<Rightarrow> match_all re (Some c) cs)
      | Some (Suc n) \<Rightarrow>
          take (Suc n) s # match_all re (Some (s ! n)) (drop (Suc n) s))"
  by pat_completeness auto
termination
  by (relation "measure (\<lambda>(re, p, s). length s)") (auto dest: rmatch_le)

declare match_all.simps [simp del]

section \<open>Ticket references (utils.js)\<close>

text \<open>\<^verbatim>\<open>/\b([A-Z][A-Z0-9]*-\d+)(?=[_\-\s\/]|$)/g\<close>\<close>

definition jiraPattern :: "node list" where
  "jiraPattern =
     [WordB, Cls is_upper, Star is_upper_digit, Cls (is_char CHR ''-'')]
     @ Plus is_digit
     @ [Look [Alt [Cls is_separator] [End]]]"

text \<open>
  \<^verbatim>\<open>[...new Set(matches)]\<close>: a Set keeps its elements in insertion order and ignores
  the insertion of an element that it holds.
\<close>

definition set_add :: "'a list \<Rightarrow> 'a \<Rightarrow> 'a list" where
  "set_add acc x = (if x \<in> set acc then acc else acc @ [x])"

definition new_Set :: "'a list \<Rightarrow> 'a list" where
  "new_Set xs = foldl set_add [] xs"

definition extractJiraTickets :: "jsstring \<Rightarrow> jsstring list" where
  "extractJiraTickets text = new_Set (match_all jiraPattern None text)"

section \<open>JavaScript values and effects\<close>

text \<open>
  A value that may be absent: a property that a JSON object lacks reads as
  \<^verbatim>\<open>undefined\<close>, and a JSON \<^verbatim>\<open>null\<close> is kept apart from it because a template
  literal prints the two differently.
\<close>

datatype 'a js = Undefined | Null | Val 'a

text \<open>An exception: the name of its class and its \<^verbatim>\<open>message\<close>.\<close>

datatype js_error = JsError (error_name: jsstring) (message: jsstring)

text \<open>
  Reading the property \<open>name\<close> of \<open>x\<close> needs \<open>x\<close> to be an object: on
  \<^verbatim>\<open>undefined\<close> and \<^verbatim>\<open>null\<close> it throws a TypeError (the message is the one of V8).
\<close>

definition cannot_read :: "string \<Rightarrow> string \<Rightarrow> js_error" where
  "cannot_read what name =
     JsError (str ''TypeError'')
       (str ''Cannot read properties of '' @ str what @ str '' (reading '' @ [0x27] @ str name
          @ [0x27] @ str '')'')"

definition object_of :: "'a js \<Rightarrow> string \<Rightarrow> js_error + 'a" where
  "object_of x name =
     (case x of
        Val v \<Rightarrow> Inr v
      | Undefined \<Rightarrow> Inl (cannot_read ''undefined'' name)
      | Null \<Rightarrow> Inl (cannot_read ''null'' name))"

text \<open>\<^verbatim>\<open>x || d\<close> on a string: \<^verbatim>\<open>undefined\<close>, \<^verbatim>\<open>null\<close> and the empty string are falsy.\<close>

definition or_string :: "jsstring js \<Rightarrow> jsstring \<Rightarrow> jsstring" where
  "or_string x d = (case x of Val s \<Rightarrow> (if s = [] then d else s) | _ \<Rightarrow> d)"

text \<open>\<^verbatim>\<open>x || []\<close> on an array: every array is truthy.\<close>

definition or_array :: "'a list js \<Rightarrow> 'a list" where
  "or_array x = (case x of Val xs \<Rightarrow> xs | _ \<Rightarrow> [])"

text \<open>\<^verbatim>\<open>x?.map(f)\<close>\<close>

definition optional_map :: "('a \<Rightarrow> 'b) \<Rightarrow> 'a list js \<Rightarrow> 'b list js" where
  "optional_map f x = (case x of Val xs \<Rightarrow> Val (map f xs) | _ \<Rightarrow> Undefined)"

text \<open>A string in a template literal: \<^verbatim>\<open>`${x}`\<close>.\<close>

definition show_js :: "jsstring js \<Rightarrow> jsstring" where
  "show_js x = (case x of Val s \<Rightarrow> s | Undefined \<Rightarrow> str ''undefined'' | Null \<Rightarrow> str ''null'')"

text \<open>
  An integer in a template literal: its decimal digits. The numbers of the source are
  lengths and the line counts of the compare API, integers far below \<open>10\<^sup>2\<^sup>1\<close>, where
  JavaScript starts to print exponents.
\<close>

function digits :: "nat \<Rightarrow> jsstring" where
  "digits n = (if n < 10 then [0x30 + of_nat n] else digits (n div 10) @ [0x30 + of_nat (n mod 10)])"
  by pat_completeness auto
termination
  by (relation "measure id") auto

declare digits.simps [simp del]

definition show_nat :: "nat \<Rightarrow> jsstring" where
  "show_nat n = digits n"

definition show_int :: "int \<Rightarrow> jsstring" where
  "show_int i = (if i < 0 then 0x2D # digits (nat (- i)) else digits (nat i))"

text \<open>\<^verbatim>\<open>xs.join(sep)\<close>\<close>

fun join :: "jsstring \<Rightarrow> jsstring list \<Rightarrow> jsstring" where
  "join sep [] = []"
| "join sep [x] = x"
| "join sep (x # y # ys) = x @ sep @ join sep (y # ys)"

text \<open>\<^verbatim>\<open>s.endsWith(t)\<close>\<close>

definition endsWith :: "jsstring \<Rightarrow> jsstring \<Rightarrow> bool" where
  "endsWith s t = (length t \<le> length s \<and> drop (length s - length t) s = t)"

text \<open>\<^verbatim>\<open>s.split('.').pop()\<close>: what follows the last dot, the whole of \<open>s\<close> without a dot.\<close>

definition split_dot_pop :: "jsstring \<Rightarrow> jsstring" where
  "split_dot_pop s = rev (takeWhile (\<lambda>c. c \<noteq> 0x2E) (rev s))"

section \<open>The pull-request title (github/index.js)\<close>

text \<open>The signature: a space and the robot emoji U+1F916, a surrogate pair in UTF-16.\<close>

definition aiSignature :: jsstring where
  "aiSignature = [0x20, 0xD83E, 0xDD16]"

definition finalTitle :: "jsstring \<Rightarrow> jsstring" where
  "finalTitle title = (if endsWith title aiSignature then title else title @ aiSignature)"

section \<open>The ticket detail fetcher (jira/ticketDetails.js)\<close>

text \<open>
  The issue of the JIRA REST API, as far as the source reads it. A field that the
  response lacks is \<open>Undefined\<close>. The issue has the properties \<^verbatim>\<open>key\<close> and
  \<^verbatim>\<open>fields\<close>; the fields carry the names of the JSON with the prefix \<open>f_\<close>.
\<close>

record named =
  name :: "jsstring js"

record person =
  displayName :: "jsstring js"

record issue_fields =
  f_summary :: "jsstring js"
  f_description :: "jsstring js"
  f_status :: "named js"
  f_priority :: "named js"
  f_assignee :: "person js"
  f_reporter :: "person js"
  f_issuetype :: "named js"
  f_created :: "jsstring js"
  f_updated :: "jsstring js"
  f_labels :: "jsstring list js"
  f_components :: "named list js"
  f_fixVersions :: "named list js"

record issue =
  i_key :: "jsstring js"
  i_fields :: "issue_fields js"

text \<open>
  \<^verbatim>\<open>ticketDetails\<close> and the object that the tool returns. The placeholder of the
  \<^verbatim>\<open>catch\<close> block has six properties only; the others are \<open>Undefined\<close> there.
\<close>

record ticketDetails =
  key :: "jsstring js"
  summary :: "jsstring js"
  description :: jsstring
  status :: "jsstring js"
  priority :: "jsstring js"
  assignee :: "jsstring js"
  reporter :: "jsstring js"
  issueType :: "jsstring js"
  created :: "jsstring js"
  updated :: "jsstring js"
  labels :: "jsstring list js"
  components :: "jsstring js list js"
  fixVersions :: "jsstring js list js"
  figmaLinks :: "jsstring list"
  url :: jsstring

record jira_result =
  success :: bool
  error :: "jsstring js"
  ticket :: ticketDetails

text \<open>
  The world outside: \<open>'w\<close> is its state, and each request takes the state and returns
  the next one with its outcome, \<open>Inl\<close> for a rejected promise. \<^verbatim>\<open>axios.get\<close> is typed by
  what the caller reads from \<^verbatim>\<open>response.data\<close>. The fields in capitals are the
  variables of \<^verbatim>\<open>process.env\<close>; \<open>toLowerCase\<close> and \<open>toUpperCase\<close> are the case mappings of the
  runtime.
\<close>

type_synonym headers = "(jsstring \<times> jsstring) list"

record stats =
  additions :: int
  deletions :: int
  total :: int

record file_change =
  filename :: jsstring
  file_status :: jsstring
  file_additions :: int
  file_deletions :: int

record compareData =
  cd_files :: "file_change list js"
  cd_stats :: "stats js"

record llm_response =
  content :: jsstring

record 'w io =
  jira_get :: "jsstring \<Rightarrow> headers \<Rightarrow> 'w \<Rightarrow> (js_error + issue js) \<times> 'w"
  compare_get :: "jsstring \<Rightarrow> headers \<Rightarrow> 'w \<Rightarrow> (js_error + compareData js) \<times> 'w"
  llm_invoke :: "jsstring \<Rightarrow> 'w \<Rightarrow> (js_error + llm_response) \<times> 'w"
  JIRA_API_TOKEN :: "jsstring js"
  GITHUB_TOKEN :: "jsstring js"
  AI_USERNAME :: "jsstring js"
  AI_BASE_URL :: "jsstring js"
  AI_API_KEY :: "jsstring js"
  AI_MODEL :: "jsstring js"
  toLowerCase :: "jsstring \<Rightarrow> jsstring"
  toUpperCase :: "jsstring \<Rightarrow> jsstring"

definition jiraBaseUrl :: jsstring where
  "jiraBaseUrl = str ''https://jira2.workday.com''"

text \<open>\<^verbatim>\<open>/https?:\/\/(?:www\.)?figma\.com\/(?:file|design)\/[a-zA-Z0-9]+\/[^?\s]*/g\<close>\<close>

definition figmaRegex :: "node list" where
  "figmaRegex =
     Lit ''http'' @ [Opt (Lit ''s'')] @ Lit ''://'' @ [Opt (Lit ''www.'')] @ Lit ''figma.com/''
     @ [Alt (Lit ''file'') (Lit ''design'')] @ Lit ''/'' @ Plus is_alnum @ Lit ''/''
     @ [Star is_url_tail]"

definition extractFigmaLinks :: "jsstring \<Rightarrow> jsstring list" where
  "extractFigmaLinks text = (if text = [] then [] else match_all figmaRegex None text)"

text \<open>\<^verbatim>\<open>`${summary} ${description}`\<close>\<close>

definition allText :: "jsstring \<Rightarrow> jsstring \<Rightarrow> jsstring" where
  "allText summ descr = summ @ [0x20] @ descr"

text \<open>
  The statements of the \<^verbatim>\<open>try\<close> block after the response has arrived, in their order:
  the first property read from \<^verbatim>\<open>undefined\<close> or \<^verbatim>\<open>null\<close> throws.
\<close>

definition ticket_of_issue :: "jsstring \<Rightarrow> issue js \<Rightarrow> js_error + jira_result" where
  "ticket_of_issue ticketId data =
     (case object_of data ''fields'' of Inl e \<Rightarrow> Inl e | Inr issue \<Rightarrow>
      case object_of (i_fields issue) ''description'' of Inl e \<Rightarrow> Inl e | Inr fs \<Rightarrow>
      let descr = or_string (f_description fs) (str ''No description provided'');
          summ = or_string (f_summary fs) [];
          links = extractFigmaLinks (allText summ descr)
      in
      case object_of (f_status fs) ''name'' of Inl e \<Rightarrow> Inl e | Inr status_object \<Rightarrow>
      case object_of (f_issuetype fs) ''name'' of Inl e \<Rightarrow> Inl e | Inr issuetype_object \<Rightarrow>
      Inr \<lparr> success = True,
            error = Undefined,
            ticket = \<lparr>
              key = i_key issue,
              summary = f_summary fs,
              description = descr,
              status = name status_object,
              priority = Val (or_string (case f_priority fs of Val p \<Rightarrow> name p | _ \<Rightarrow> Undefined)
                                (str ''Not set'')),
              assignee = Val (or_string (case f_assignee fs of Val a \<Rightarrow> displayName a | _ \<Rightarrow> Undefined)
                                (str ''Unassigned'')),
              reporter = Val (or_string (case f_reporter fs of Val r \<Rightarrow> displayName r | _ \<Rightarrow> Undefined)
                                (str ''Unknown'')),
              issueType = name issuetype_object,
              created = f_created fs,
              updated = f_updated fs,
              labels = Val (or_array (f_labels fs)),
              components = Val (or_array (optional_map name (f_components fs))),
              fixVersions = Val (or_array (optional_map name (f_fixVersions fs))),
              figmaLinks = links,
              url = jiraBaseUrl @ str ''/browse/'' @ ticketId \<rparr> \<rparr>)"

text \<open>The request of the \<^verbatim>\<open>try\<close> block: the URL and the headers of \<^verbatim>\<open>axios.get\<close>.\<close>

definition jiraApiUrl :: "jsstring \<Rightarrow> jsstring" where
  "jiraApiUrl ticketId = jiraBaseUrl @ str ''/rest/api/2/issue/'' @ ticketId"

definition jira_headers :: "jsstring js \<Rightarrow> headers" where
  "jira_headers apiToken =
     [(str ''Accept'', str ''application/json''), (str ''Content-Type'', str ''application/json'')]
     @ (case apiToken of
          Val t \<Rightarrow> (if t = [] then [] else [(str ''Authorization'', str ''Bearer '' @ t)])
        | _ \<Rightarrow> [])"

text \<open>The \<^verbatim>\<open>try\<close> block: \<open>Inl\<close> is the exception that leaves it.\<close>

definition get_jira_ticket_details_try ::
  "'w io \<Rightarrow> jsstring \<Rightarrow> 'w \<Rightarrow> (js_error + jira_result) \<times> 'w" where
  "get_jira_ticket_details_try io ticketId w =
     (case jira_get io (jiraApiUrl ticketId) (jira_headers (JIRA_API_TOKEN io)) w of
        (Inl e, w') \<Rightarrow> (Inl e, w')
      | (Inr data, w') \<Rightarrow> (ticket_of_issue ticketId data, w'))"

text \<open>The object of the \<^verbatim>\<open>catch\<close> block.\<close>

definition fallback_response :: "jsstring \<Rightarrow> js_error \<Rightarrow> jira_result" where
  "fallback_response ticketId e =
     \<lparr> success = False,
       error = Val (message e),
       ticket = \<lparr>
         key = Val ticketId,
         summary = Val (str ''JIRA ticket '' @ ticketId),
         description = str ''Unable to fetch ticket details from JIRA API'',
         status = Val (str ''Unknown''),
         priority = Undefined,
         assignee = Undefined,
         reporter = Undefined,
         issueType = Undefined,
         created = Undefined,
         updated = Undefined,
         labels = Undefined,
         components = Undefined,
         fixVersions = Undefined,
         figmaLinks = [],
         url = str ''https://jira2.workday.com/browse/'' @ ticketId \<rparr> \<rparr>"

text \<open>
  The tool function: the \<^verbatim>\<open>try\<close> block, and the \<^verbatim>\<open>catch\<close> block for every exception
  that leaves it. The result type has no exception: nothing in the \<^verbatim>\<open>catch\<close> block
  throws.
\<close>

definition get_jira_ticket_details :: "'w io \<Rightarrow> jsstring \<Rightarrow> 'w \<Rightarrow> jira_result \<times> 'w" where
  "get_jira_ticket_details io ticketId w =
     (case get_jira_ticket_details_try io ticketId w of
        (Inr r, w') \<Rightarrow> (r, w')
      | (Inl e, w') \<Rightarrow> (fallback_response ticketId e, w'))"

section \<open>The narrative generator (github/summary.js)\<close>

text \<open>The lines of a template literal, joined by line feeds.\<close>

definition lines :: "jsstring list \<Rightarrow> jsstring" where
  "lines ls = join [0x0A] ls"

text \<open>\<^verbatim>\<open>xs.join(sep)\<close> on an array with absent elements: they print as the empty string.\<close>

definition join_js :: "jsstring \<Rightarrow> jsstring js list \<Rightarrow> jsstring" where
  "join_js sep xs = join sep (map (\<lambda>x. case x of Val s \<Rightarrow> s | _ \<Rightarrow> []) xs)"

text \<open>
  The table of \<^verbatim>\<open>getFileTypeCategory\<close>. Its keys are looked up as own properties of
  the object; an extension that names a property inherited from \<^verbatim>\<open>Object.prototype\<close>
  (such as \<^verbatim>\<open>constructor\<close>) is outside this model.
\<close>

definition categories :: "(string \<times> string) list" where
  "categories =
     [(''js'', ''JavaScript''),
      (''jsx'', ''React Component''),
      (''ts'', ''TypeScript''),
      (''tsx'', ''React TypeScript''),
      (''vue'', ''Vue Component''),
      (''html'', ''HTML''),
      (''css'', ''CSS''),
      (''scss'', ''SCSS''),
      (''sass'', ''SASS''),
      (''less'', ''LESS''),
      (''py'', ''Python''),
      (''java'', ''Java''),
      (''go'', ''Go''),
      (''rs'', ''Rust''),
      (''php'', ''PHP''),
      (''rb'', ''Ruby''),
      (''cs'', ''C#''),
      (''cpp'', ''C++''),
      (''c'', ''C''),
      (''json'', ''JSON Config''),
      (''yaml'', ''YAML Config''),
      (''yml'', ''YAML Config''),
      (''xml'', ''XML Config''),
      (''toml'', ''TOML Config''),
      (''ini'', ''INI Config''),
      (''env'', ''Environment Config''),
      (''properties'', ''Properties Config''),
      (''md'', ''Markdown''),
      (''txt'', ''Text''),
      (''rst'', ''reStructuredText''),
      (''sql'', ''SQL''),
      (''db'', ''Database''),
      (''dockerfile'', ''Docker''),
      (''sh'', ''Shell Script''),
      (''bat'', ''Batch Script''),
      (''ps1'', ''PowerShell''),
      (''lock'', ''Lock File''),
      (''log'', ''Log File'')]"

definition getFileTypeCategory :: "'w io \<Rightarrow> jsstring \<Rightarrow> jsstring" where
  "getFileTypeCategory io extension =
     (case map_of (map (\<lambda>(k, v). (str k, str v)) categories) (toLowerCase io extension) of
        Some category \<Rightarrow> category
      | None \<Rightarrow> toUpperCase io extension @ str '' File'')"

text \<open>\<^verbatim>\<open>file.filename.split('.').pop() || 'no-extension'\<close>\<close>

definition extension_of :: "jsstring \<Rightarrow> jsstring" where
  "extension_of fname = or_string (Val (split_dot_pop fname)) (str ''no-extension'')"

definition file_line :: "'w io \<Rightarrow> file_change \<Rightarrow> jsstring" where
  "file_line io file =
     (let ext = extension_of (filename file);
          fileType = getFileTypeCategory io ext
      in str ''- '' @ filename file @ str '' ('' @ file_status file @ str '', '' @ fileType
           @ str ''): +'' @ show_int (file_additions file) @ str ''/-''
           @ show_int (file_deletions file) @ str '' lines'')"

text \<open>
  The text about the first ticket. \<^verbatim>\<open>ticket.components.join\<close> and
  \<^verbatim>\<open>ticket.labels.join\<close> throw when the property is absent.
\<close>

definition ticket_context :: "ticketDetails \<Rightarrow> js_error + jsstring" where
  "ticket_context t =
     (case object_of (components t) ''join'' of Inl e \<Rightarrow> Inl e | Inr cs \<Rightarrow>
      case object_of (labels t) ''join'' of Inl e \<Rightarrow> Inl e | Inr ls \<Rightarrow>
      Inr (lines
              [[],
              str ''JIRA Ticket Details ('' @ show_js (key t) @ str ''):'',
              str ''- Title: '' @ show_js (summary t),
              str ''- Status: '' @ show_js (status t),
              str ''- Priority: '' @ show_js (priority t),
              str ''- Assignee: '' @ show_js (assignee t),
              str ''- Issue Type: '' @ show_js (issueType t),
              str ''- Description: '' @ description t,
              str ''- Components: '' @ or_string (Val (join_js (str '', '') cs)) (str ''None''),
              str ''- Labels: '' @ or_string (Val (join (str '', '') ls)) (str ''None''),
              str ''- Figma Links: '' @ (if length (figmaLinks t) > 0 then join (str '', '') (figmaLinks t) else str ''None'')]))"

text \<open>
  \<^verbatim>\<open>jiraContext\<close> and \<^verbatim>\<open>jiraTicketDetails\<close>: the details of the first ticket only,
  and only when the fetcher reports success; the inner \<^verbatim>\<open>catch\<close> block replaces them
  when building them throws.
\<close>

definition jira_context :: "'w io \<Rightarrow> jsstring list \<Rightarrow> 'w \<Rightarrow> (jsstring \<times> jsstring) \<times> 'w" where
  "jira_context io jiraTickets w =
     (if length jiraTickets > 0 then
        (let primaryTicket = hd jiraTickets in
         case get_jira_ticket_details io primaryTicket w of
           (jiraResult, w') \<Rightarrow>
             ((str ''JIRA Tickets: '' @ join (str '', '') jiraTickets,
               (if success jiraResult then
                  (case ticket_context (ticket jiraResult) of
                     Inr details \<Rightarrow> details
                   | Inl e \<Rightarrow> lines [[], str ''JIRA Ticket: '' @ primaryTicket @ str '' (details unavailable)''])
                else [])),
              w'))
      else ((str ''No JIRA tickets found in branch name'', []), w))"

definition customContext_of :: "jsstring \<Rightarrow> jsstring" where
  "customContext_of customBody =
     (if customBody \<noteq> [] then lines [[], str ''Custom Description Provided:'', customBody] else [])"

definition descriptionPrompt ::
  "jsstring \<Rightarrow> jsstring \<Rightarrow> file_change list \<Rightarrow> stats \<Rightarrow> jsstring \<Rightarrow> jsstring \<Rightarrow> jsstring
     \<Rightarrow> jsstring \<Rightarrow> jsstring" where
  "descriptionPrompt head base filesChanged st jiraContext jiraTicketDetails customContext fileSummary =
     lines
       [str ''You are an expert software engineer assistant. Your task is to write a concise description for the '' @ [0x22] @ str ''Description:'' @ [0x22] @ str '' section of a pull request.'',
       [],
       str ''Context:'',
       str ''- Branch: '' @ head @ str '' '' @ [0x2192] @ str '' '' @ base,
       str ''- Files Changed: '' @ show_nat (length filesChanged),
       str ''- Lines Added: +'' @ show_int (additions st),
       str ''- Lines Deleted: -'' @ show_int (deletions st),
       str ''- Net Change: '' @ show_int (additions st - deletions st),
       str ''- '' @ jiraContext @ jiraTicketDetails @ customContext,
       [],
       str ''Files Modified:'',
       fileSummary,
       [],
       str ''Please provide a concise description (2-3 sentences maximum) that:'',
       str ''   - Use the provided JIRA ticket details to understand the '' @ [0x22] @ str ''why'' @ [0x22] @ str '' and the business requirements.'',
       str ''   - Use the provided Git Diff to understand the '' @ [0x22] @ str ''how'' @ [0x22] @ str '' and the technical implementation.'',
       str ''   - Reference the JIRA ticket title and requirements when explaining the changes.'',
       str ''   - Incorporate any custom description provided above into the summary.'',
       str ''   - Write ONLY the content for the '' @ [0x22] @ str ''Description:'' @ [0x22] @ str '' section - do NOT include any markdown headers like '' @ [0x22] @ str ''## Description:'' @ [0x22] @ str '' or '' @ [0x22] @ str ''## Summary:'' @ [0x22] @ str ''.'',
       str ''   - Do not make up information; base the description strictly on the context provided.'',
       str ''   - Keep it brief, focused, and professional.'',
       str ''   - Focus on the main purpose and impact of the changes.'',
       str ''   '']"

definition keyChangesPrompt ::
  "jsstring \<Rightarrow> jsstring \<Rightarrow> file_change list \<Rightarrow> stats \<Rightarrow> jsstring \<Rightarrow> jsstring \<Rightarrow> jsstring
     \<Rightarrow> jsstring \<Rightarrow> jsstring" where
  "keyChangesPrompt head base filesChanged st jiraContext jiraTicketDetails customContext fileSummary =
     lines
       [str ''You are an expert software engineer assistant. Your task is to write a detailed '' @ [0x22] @ str ''Key Changes:'' @ [0x22] @ str '' section for a pull request.'',
       [],
       str ''Context:'',
       str ''- Branch: '' @ head @ str '' '' @ [0x2192] @ str '' '' @ base,
       str ''- Files Changed: '' @ show_nat (length filesChanged),
       str ''- Lines Added: +'' @ show_int (additions st),
       str ''- Lines Deleted: -'' @ show_int (deletions st),
       str ''- Net Change: '' @ show_int (additions st - deletions st),
       str ''- '' @ jiraContext @ jiraTicketDetails @ customContext,
       [],
       str ''Files Modified:'',
       fileSummary,
       [],
       str ''Based on the specific files and changes above, provide a detailed bulleted list of key changes that:'',
       str ''   - Analyzes the file names, extensions, and change patterns to understand the technical scope'',
       str ''   - Correlates the file changes with the JIRA ticket requirements and business context'',
       str ''   - Describes specific features, functionality, and business value added'',
       str ''   - Explains what new capabilities, improvements, or fixes were implemented'',
       str ''   - References the JIRA ticket details (title, description, components, labels) to understand the business requirements'',
       str ''   - Groups related changes logically (e.g., '' @ [0x22] @ str ''Frontend Updates'' @ [0x22] @ str '', '' @ [0x22] @ str ''API Changes'' @ [0x22] @ str '', '' @ [0x22] @ str ''Configuration Updates'' @ [0x22] @ str '')'',
       str ''   - Provides context about the impact and scope of each change category'',
       str ''   - Avoids mentioning specific file names, line numbers, or technical implementation details'',
       str ''   - Write ONLY the bulleted list content - do NOT include '' @ [0x22] @ str ''Key Changes:'' @ [0x22] @ str '' header or any markdown headers'',
       str ''   - Use bullet points ('' @ [0x2022] @ str '' or -) to list each key change'',
       str ''   - Keep each point detailed but focused on user-facing features or business impact'',
       str ''   - Do not make up information; base the content strictly on the actual files and changes provided'',
       str ''   - Limit to 4-6 most important changes'',
       str ''   - Start directly with the first bullet point, no introductory text'',
       str ''   - Focus on '' @ [0x22] @ str ''what'' @ [0x22] @ str '' was added/improved and '' @ [0x22] @ str ''why'' @ [0x22] @ str '' it matters, not '' @ [0x22] @ str ''how'' @ [0x22] @ str '' it was implemented'',
       str ''   - Include specific details about the functionality being added or improved'',
       str ''   '']"

definition motivationPrompt ::
  "jsstring \<Rightarrow> jsstring \<Rightarrow> file_change list \<Rightarrow> stats \<Rightarrow> jsstring \<Rightarrow> jsstring \<Rightarrow> jsstring
     \<Rightarrow> jsstring \<Rightarrow> jsstring" where
  "motivationPrompt head base filesChanged st jiraContext jiraTicketDetails customContext fileSummary =
     lines
       [str ''You are an expert software engineer assistant. Your task is to write a concise '' @ [0x22] @ str ''Motivation and Context:'' @ [0x22] @ str '' section for a pull request.'',
       [],
       str ''Context:'',
       str ''- Branch: '' @ head @ str '' '' @ [0x2192] @ str '' '' @ base,
       str ''- Files Changed: '' @ show_nat (length filesChanged),
       str ''- Lines Added: +'' @ show_int (additions st),
       str ''- Lines Deleted: -'' @ show_int (deletions st),
       str ''- Net Change: '' @ show_int (additions st - deletions st),
       str ''- '' @ jiraContext @ jiraTicketDetails @ customContext,
       [],
       str ''Files Modified:'',
       fileSummary,
       [],
       str ''Based on the specific files and changes above, provide a concise motivation and context (2-3 sentences maximum) that explains:'',
       str ''   - WHY is this specific change required? What business problem does it solve?'',
       str ''   - What specific functionality or capability is being added/improved?'',
       str ''   - What will be the immediate impact for users or the system?'',
       str ''   - Analyze the file names and changes to understand the actual purpose'',
       str ''   - Use the JIRA ticket details (title, description, status, priority) to understand the business requirements'',
       str ''   - Reference the JIRA ticket context when explaining the motivation'',
       str ''   - Write ONLY the content for the '' @ [0x22] @ str ''Motivation and Context:'' @ [0x22] @ str '' section - do NOT include any markdown headers'',
       str ''   - Keep it brief, direct, and focused on the specific changes being made'',
       str ''   - Do not make up information; base the content strictly on the actual files and changes provided'',
       str ''   '']"

subsection \<open>The client of the language model (config/aiConfig.js)\<close>

record ai_config =
  ai_username :: jsstring
  ai_headers :: headers
  ai_base_url :: jsstring
  ai_api_key :: jsstring
  ai_model :: jsstring

text \<open>\<^verbatim>\<open>!x\<close> on a variable of the environment: it is absent or the empty string.\<close>

definition missing :: "jsstring js \<Rightarrow> bool" where
  "missing x = (or_string x [] = [])"

definition getAIConfig :: "'w io \<Rightarrow> js_error + ai_config" where
  "getAIConfig io =
     (if missing (AI_USERNAME io) then
        Inl (JsError (str ''Error'') (str ''AI_USERNAME environment variable is required''))
      else if missing (AI_BASE_URL io) then
        Inl (JsError (str ''Error'') (str ''AI_BASE_URL environment variable is required''))
      else if missing (AI_API_KEY io) then
        Inl (JsError (str ''Error'') (str ''AI_API_KEY environment variable is required''))
      else if missing (AI_MODEL io) then
        Inl (JsError (str ''Error'') (str ''AI_MODEL environment variable is required''))
      else
        Inr \<lparr> ai_username = or_string (AI_USERNAME io) [],
              ai_headers = [(str ''Authorization'', str ''Bearer '' @ or_string (AI_API_KEY io) [])],
              ai_base_url = or_string (AI_BASE_URL io) [],
              ai_api_key = or_string (AI_API_KEY io) [],
              ai_model = or_string (AI_MODEL io) [] \<rparr>)"

text \<open>
  \<^verbatim>\<open>getLLMClient\<close>: the client is given by its configuration; what its \<^verbatim>\<open>invoke\<close>
  answers is \<open>llm_invoke\<close> of the world. It throws when the configuration is
  incomplete.
\<close>

definition getLLMClient :: "'w io \<Rightarrow> js_error + ai_config" where
  "getLLMClient io = getAIConfig io"

subsection \<open>generateDetailedSummary\<close>

record narrative =
  detailedSummary :: jsstring
  keyChanges :: jsstring
  motivationContext :: jsstring

text \<open>
  The \<^verbatim>\<open>try\<close> block: the client is made first, and an exception of
  \<^verbatim>\<open>getLLMClient\<close> leaves the block before any request; then the three requests one
  after the other; the first that is rejected leaves the block, and the requests after it
  are not made.
\<close>

definition generateDetailedSummary_try ::
  "'w io \<Rightarrow> file_change list \<Rightarrow> stats \<Rightarrow> jsstring \<Rightarrow> jsstring \<Rightarrow> jsstring list \<Rightarrow> jsstring
     \<Rightarrow> 'w \<Rightarrow> (js_error + narrative) \<times> 'w" where
  "generateDetailedSummary_try io filesChanged st head base jiraTickets customBody w =
     (case getLLMClient io of
        Inl e \<Rightarrow> (Inl e, w)
      | Inr llm \<Rightarrow>
      let fileSummary = lines (map (file_line io) filesChanged) in
      case jira_context io jiraTickets w of
        ((jiraContext, jiraTicketDetails), w0) \<Rightarrow>
      let customContext = customContext_of customBody in
      case llm_invoke io (descriptionPrompt head base filesChanged st jiraContext
             jiraTicketDetails customContext fileSummary) w0 of
        (Inl e, w1) \<Rightarrow> (Inl e, w1)
      | (Inr descriptionResponse, w1) \<Rightarrow>
      case llm_invoke io (keyChangesPrompt head base filesChanged st jiraContext
             jiraTicketDetails customContext fileSummary) w1 of
        (Inl e, w2) \<Rightarrow> (Inl e, w2)
      | (Inr keyChangesResponse, w2) \<Rightarrow>
      case llm_invoke io (motivationPrompt head base filesChanged st jiraContext
             jiraTicketDetails customContext fileSummary) w2 of
        (Inl e, w3) \<Rightarrow> (Inl e, w3)
      | (Inr motivationResponse, w3) \<Rightarrow>
          (Inr \<lparr> detailedSummary = content descriptionResponse,
                 keyChanges = content keyChangesResponse,
                 motivationContext = content motivationResponse \<rparr>, w3))"

text \<open>The object of the \<^verbatim>\<open>catch\<close> block.\<close>

definition fallback_narrative :: "file_change list \<Rightarrow> stats \<Rightarrow> jsstring \<Rightarrow> jsstring \<Rightarrow> narrative" where
  "fallback_narrative filesChanged st head base =
     \<lparr> detailedSummary =
         str ''This PR introduces changes from `'' @ head @ str ''` to `'' @ base @ str ''` branch with '' @ show_nat (length filesChanged) @ str '' files modified ('' @ show_int (additions st) @ str '' additions, '' @ show_int (deletions st) @ str '' deletions).'',
       keyChanges =
         [0x2022] @ str '' Modified '' @ show_nat (length filesChanged) @ str '' files with '' @ show_int (additions st) @ str '' additions and '' @ show_int (deletions st) @ str '' deletions'',
       motivationContext =
         str ''This change addresses the requirements specified in the JIRA ticket(s) mentioned below. The modifications improve system functionality and user experience.'' \<rparr>"

definition generateDetailedSummary ::
  "'w io \<Rightarrow> file_change list \<Rightarrow> stats \<Rightarrow> jsstring \<Rightarrow> jsstring \<Rightarrow> jsstring list \<Rightarrow> jsstring
     \<Rightarrow> 'w \<Rightarrow> narrative \<times> 'w" where
  "generateDetailedSummary io filesChanged st head base jiraTickets customBody w =
     (case generateDetailedSummary_try io filesChanged st head base jiraTickets customBody w of
        (Inr bundle, w') \<Rightarrow> (bundle, w')
      | (Inl e, w') \<Rightarrow> (fallback_narrative filesChanged st head base, w'))"

section \<open>The description composer (github/analyzer.js)\<close>

definition GITHUB_API_BASE :: jsstring where
  "GITHUB_API_BASE = str ''https://ghe.megaleo.com/api/v3''"

definition getGitHubHeaders :: "jsstring \<Rightarrow> headers" where
  "getGitHubHeaders token =
     [(str ''Authorization'', str ''token '' @ token),
      (str ''Accept'', str ''application/vnd.github.v3+json''),
      (str ''Content-Type'', str ''application/json'')]"

definition getJiraUrl :: "jsstring \<Rightarrow> jsstring" where
  "getJiraUrl t = str ''https://jira2.workday.com'' @ str ''/browse/'' @ t"

definition compareUrl :: "jsstring \<Rightarrow> jsstring \<Rightarrow> jsstring \<Rightarrow> jsstring \<Rightarrow> jsstring" where
  "compareUrl owner repo head base =
     GITHUB_API_BASE @ str ''/repos/'' @ owner @ str ''/'' @ repo @ str ''/compare/'' @ base
       @ str ''...'' @ head"

text \<open>\<^verbatim>\<open>compareData.stats || { additions: 0, deletions: 0, total: 0 }\<close>\<close>

definition or_stats :: "stats js \<Rightarrow> stats" where
  "or_stats x = (case x of Val s \<Rightarrow> s | _ \<Rightarrow> \<lparr> additions = 0, deletions = 0, total = 0 \<rparr>)"

subsection \<open>The histogram of file types\<close>

text \<open>
  \<^verbatim>\<open>fileTypes\<close> is an object used as a dictionary: an association list in the order in
  which the keys were created. \<^verbatim>\<open>fileTypes[ext] = (fileTypes[ext] || 0) + 1\<close> adds one
  to the count of a key that is there and creates the others with the count 1.
  An extension that names a property inherited from \<^verbatim>\<open>Object.prototype\<close> (such as
  \<^verbatim>\<open>constructor\<close>) is outside this model.
\<close>

fun count_type :: "(jsstring \<times> nat) list \<Rightarrow> jsstring \<Rightarrow> (jsstring \<times> nat) list" where
  "count_type [] ext = [(ext, 1)]"
| "count_type ((k, n) # kvs) ext =
     (if k = ext then (k, n + 1) # kvs else (k, n) # count_type kvs ext)"

definition fileTypes_of :: "file_change list \<Rightarrow> (jsstring \<times> nat) list" where
  "fileTypes_of filesChanged =
     foldl (\<lambda>fileTypes file. count_type fileTypes (extension_of (filename file))) [] filesChanged"

text \<open>
  \<^verbatim>\<open>Object.entries\<close> lists the keys that are array indices first (the decimal numerals
  of the integers below \<open>2\<^sup>3\<^sup>2 - 1\<close>, without leading zeros), by ascending value, and
  then the other keys in the order of their creation.
\<close>

definition numeral_value :: "jsstring \<Rightarrow> int" where
  "numeral_value k = foldl (\<lambda>n c. 10 * n + uint (c - 0x30)) 0 k"

definition is_array_index :: "jsstring \<Rightarrow> bool" where
  "is_array_index k =
     (k \<noteq> [] \<and> list_all is_digit k \<and> (k = [0x30] \<or> hd k \<noteq> 0x30)
      \<and> numeral_value k < 4294967295)"

definition Object_entries :: "(jsstring \<times> nat) list \<Rightarrow> (jsstring \<times> nat) list" where
  "Object_entries kvs =
     sort_key (\<lambda>(k, n). numeral_value k) (filter (\<lambda>(k, n). is_array_index k) kvs)
     @ filter (\<lambda>(k, n). \<not> is_array_index k) kvs"

text \<open>
  \<^verbatim>\<open>.sort(([,a], [,b]) => b - a)\<close>: by descending count; the sort of an array is
  stable, as the insertion sort \<open>sort_key\<close> is.
\<close>

definition sort_by_count :: "(jsstring \<times> nat) list \<Rightarrow> (jsstring \<times> nat) list" where
  "sort_by_count entries = sort_key (\<lambda>(k, n). - int n) entries"

definition changeAnalysis_of :: "file_change list \<Rightarrow> jsstring" where
  "changeAnalysis_of filesChanged =
     (let newFiles = filter (\<lambda>f. file_status f = str ''added'') filesChanged;
          modifiedFiles = filter (\<lambda>f. file_status f = str ''modified'') filesChanged;
          deletedFiles = filter (\<lambda>f. file_status f = str ''removed'') filesChanged;
          fileTypes = fileTypes_of filesChanged;
          counts =
            lines
         [str ''- **New Files Added:** '' @ show_nat (length newFiles),
         str ''- **Files Modified:** '' @ show_nat (length modifiedFiles),
         str ''- **Files Deleted:** '' @ show_nat (length deletedFiles),
         str ''- **Total Files Changed:** '' @ show_nat (length filesChanged)]
      in if length fileTypes > 0 then
           counts @ lines
             [[], [], str ''**File Type Analysis:**'',
              lines (map (\<lambda>(ext, n). str ''- **.'' @ ext @ str '':** '' @ show_nat n @ str '' files'')
                       (sort_by_count (Object_entries fileTypes)))]
         else counts)"

subsection \<open>The sections about tickets\<close>

definition allJiraTickets_of :: "jsstring \<Rightarrow> jsstring \<Rightarrow> jsstring list" where
  "allJiraTickets_of summary_text head =
     (let jiraTicketsFromDescription = extractJiraTickets summary_text;
          jiraTicketsFromBranch = extractJiraTickets head
      in new_Set (jiraTicketsFromDescription @ jiraTicketsFromBranch))"

definition jiraSection_of :: "jsstring list \<Rightarrow> jsstring" where
  "jiraSection_of allJiraTickets =
     (if length allJiraTickets > 0 then
        lines (map (\<lambda>t. str ''- ['' @ t @ str ''](''  @ getJiraUrl t @ str '')'') allJiraTickets)
      else str ''<!-- Please add Jira Link here -->'')"

text \<open>
  The Figma links of the first ticket, fetched once more. The fetcher does not throw, so
  the inner \<^verbatim>\<open>catch\<close> block has nothing to catch.
\<close>

definition figmaSection_of :: "'w io \<Rightarrow> jsstring list \<Rightarrow> 'w \<Rightarrow> jsstring \<times> 'w" where
  "figmaSection_of io allJiraTickets w =
     (if length allJiraTickets > 0 then
        (case get_jira_ticket_details io (hd allJiraTickets) w of
           (jiraResult, w') \<Rightarrow>
             (if success jiraResult \<and> length (figmaLinks (ticket jiraResult)) > 0 then
                lines (map (\<lambda>link. str ''- [Figma Design]('' @ link @ str '')'')
                         (figmaLinks (ticket jiraResult)))
              else [], w'))
      else ([], w))"

subsection \<open>The template\<close>

definition enhancedDescription ::
  "jsstring \<Rightarrow> jsstring \<Rightarrow> jsstring \<Rightarrow> jsstring \<Rightarrow> jsstring \<Rightarrow> jsstring \<Rightarrow> jsstring" where
  "enhancedDescription detailedSummary_text keyChanges_text motivationContext_text jiraSection
       figmaSection changeAnalysis =
     lines
       [str ''<!--- Provide a general summary of your changes in the Title above by starting with Jira Ticket -->'',
       [],
       str ''## Description:'',
       detailedSummary_text,
       [],
       str ''   ### Key Changes:'',
       str ''   '' @ keyChanges_text,
       [],
       str ''## Motivation and Context:'',
       motivationContext_text,
       [],
       str ''## Jira Ticket: '',
       jiraSection,
       [],
       (if figmaSection \<noteq> [] then lines [str ''## Figma Links:'', figmaSection, [], []] else []) @ str ''## Screenshots:'',
       str ''| Before | After |'',
       str ''| ------ | ----- |'',
       str ''|--before-image--|--after-image-- |'',
       [],
       str ''## Change Analysis:'',
       changeAnalysis,
       [],
       str ''---'',
       [],
       str ''> '' @ [0xD83E, 0xDD16] @ str '' **Created by AI Agent** - This PR was automatically generated with enhanced analysis and formatting.'']"

text \<open>The description of the \<^verbatim>\<open>catch\<close> block.\<close>

definition fallback_description :: "jsstring \<Rightarrow> jsstring \<Rightarrow> jsstring" where
  "fallback_description head base =
     lines
       [str ''<!--- Provide a general summary of your changes in the Title above by starting with Jira Ticket -->'',
       [],
       str ''## Description:'',
       str ''This PR introduces changes from `'' @ head @ str ''` to `'' @ base @ str ''` branch.'',
       [],
       str ''*Note: Unable to analyze code diff automatically. Please review the changes manually.*'',
       [],
       str ''   ### Key Changes:'',
       str ''   '' @ [0x2022] @ str '' Modified files with additions and deletions'',
       [],
       str ''## Motivation and Context:'',
       str ''This change addresses the requirements specified in the JIRA ticket(s) mentioned below. The modifications improve system functionality and user experience.'',
       [],
       str ''## Jira Ticket: '',
       str ''<!-- Please add Jira Link here -->'',
       [],
       str ''## Screenshots:'',
       str ''| Before | After |'',
       str ''| ------ | ----- |'',
       str ''|--before-image--|--after-image-- |'',
       [],
       str ''## Change Analysis:'',
       str ''- **New Files Added:** 0'',
       str ''- **Files Modified:** 0'',
       str ''- **Files Deleted:** 0'',
       str ''- **Total Files Changed:** 0'',
       [],
       [],
       str ''---'',
       [],
       str ''> '' @ [0xD83E, 0xDD16] @ str '' **Created by AI Agent** - This PR was automatically generated with enhanced analysis and formatting.'']"

subsection \<open>analyzeCodeDiff\<close>

text \<open>
  The \<^verbatim>\<open>try\<close> block. \<^verbatim>\<open>compareData.files\<close> throws when the response has no data.
\<close>

definition analyzeCodeDiff_try ::
  "'w io \<Rightarrow> jsstring \<Rightarrow> jsstring \<Rightarrow> jsstring \<Rightarrow> jsstring \<Rightarrow> jsstring \<Rightarrow> jsstring \<Rightarrow> 'w
     \<Rightarrow> (js_error + jsstring) \<times> 'w" where
  "analyzeCodeDiff_try io owner repo head base token body w =
     (case compare_get io (compareUrl owner repo head base) (getGitHubHeaders token) w of
        (Inl e, w1) \<Rightarrow> (Inl e, w1)
      | (Inr data, w1) \<Rightarrow>
      case object_of data ''files'' of
        Inl e \<Rightarrow> (Inl e, w1)
      | Inr compareData \<Rightarrow>
      let filesChanged = or_array (cd_files compareData);
          st = or_stats (cd_stats compareData);
          branchJiraTickets = extractJiraTickets head
      in
      case generateDetailedSummary io filesChanged st head base branchJiraTickets body w1 of
        (bundle, w2) \<Rightarrow>
      let allJiraTickets = allJiraTickets_of (detailedSummary bundle) head;
          jiraSection = jiraSection_of allJiraTickets
      in
      case figmaSection_of io allJiraTickets w2 of
        (figmaSection, w3) \<Rightarrow>
          (Inr (enhancedDescription (detailedSummary bundle) (keyChanges bundle)
                  (motivationContext bundle) jiraSection figmaSection
                  (changeAnalysis_of filesChanged)), w3))"

definition analyzeCodeDiff ::
  "'w io \<Rightarrow> jsstring \<Rightarrow> jsstring \<Rightarrow> jsstring \<Rightarrow> jsstring \<Rightarrow> jsstring \<Rightarrow> jsstring \<Rightarrow> 'w
     \<Rightarrow> jsstring \<times> 'w" where
  "analyzeCodeDiff io owner repo head base token body w =
     (case analyzeCodeDiff_try io owner repo head base token body w of
        (Inr description_text, w') \<Rightarrow> (description_text, w')
      | (Inl e, w') \<Rightarrow> (fallback_description head base, w'))"

section \<open>The pull-request orchestrator (github/index.js)\<close>

text \<open>
  \<^verbatim>\<open>validateGitHubToken\<close>: the token of the environment, \<open>None\<close> for the object with
  \<^verbatim>\<open>success: false\<close> that the tool returns at once when the token is missing or empty.
\<close>

definition validateGitHubToken :: "'w io \<Rightarrow> jsstring option" where
  "validateGitHubToken io =
     (case GITHUB_TOKEN io of Val t \<Rightarrow> (if t = [] then None else Some t) | _ \<Rightarrow> None)"

text \<open>The body of the POST request to \<^verbatim>\<open>/repos/{owner}/{repo}/pulls\<close>.\<close>

record payload =
  pr_title :: jsstring
  pr_head :: jsstring
  pr_base :: jsstring
  pr_body :: jsstring
  pr_draft :: bool

text \<open>
  \<^verbatim>\<open>create_pull_request\<close> up to its POST request: the URL and the payload that it
  sends, or \<open>None\<close> when the token is missing and nothing is sent. The arguments are
  the ones of the tool after its defaults.
\<close>

definition create_pull_request_request ::
  "'w io \<Rightarrow> jsstring \<Rightarrow> jsstring \<Rightarrow> jsstring \<Rightarrow> jsstring \<Rightarrow> jsstring \<Rightarrow> jsstring \<Rightarrow> bool \<Rightarrow> bool
     \<Rightarrow> 'w \<Rightarrow> (jsstring \<times> payload) option \<times> 'w" where
  "create_pull_request_request io owner repo title head base body draft include_diff_analysis w =
     (case validateGitHubToken io of
        None \<Rightarrow> (None, w)
      | Some token \<Rightarrow>
          (case (if include_diff_analysis
                 then analyzeCodeDiff io owner repo head base token body w
                 else (body, w)) of
             (finalBody, w') \<Rightarrow>
               (Some (GITHUB_API_BASE @ str ''/repos/'' @ owner @ str ''/'' @ repo @ str ''/pulls'',
                      \<lparr> pr_title = finalTitle title, pr_head = head, pr_base = base,
                        pr_body = finalBody, pr_draft = draft \<rparr>), w')))"

section \<open>Properties of the matcher and of the Set\<close>

text \<open>The code unit before a position: the last one of the text before it.\<close>

definition last_or :: "code_unit option \<Rightarrow> jsstring \<Rightarrow> code_unit option" where
  "last_or p pre = (if pre = [] then p else Some (last pre))"

text \<open>
  The grammar of a ticket reference in the words of the specification: an uppercase
  letter, then uppercase letters or digits, a hyphen, and one or more digits.
\<close>

definition ticket_shape :: "jsstring \<Rightarrow> bool" where
  "ticket_shape m =
     (case m of
        [] \<Rightarrow> False
      | u # r \<Rightarrow> is_upper u \<and>
          (case dropWhile is_upper_digit r of
             [] \<Rightarrow> False
           | h # ds \<Rightarrow> h = 0x2D \<and> ds \<noteq> [] \<and> list_all is_digit ds))"

text \<open>
  The position at which an element occurs first in a list, and the list of the first
  occurrences of the elements of a list, in their order.
\<close>

definition first_index :: "'a list \<Rightarrow> 'a \<Rightarrow> nat" where
  "first_index xs x = length (takeWhile (\<lambda>y. y \<noteq> x) xs)"

fun first_occurrences :: "'a list \<Rightarrow> 'a list" where
  "first_occurrences [] = []"
| "first_occurrences (x # xs) = x # first_occurrences (filter (\<lambda>y. y \<noteq> x) xs)"

lemma last_or_Nil [simp]: "last_or p [] = p" by (simp add: last_or_def)
lemma last_or_snoc [simp]: "last_or p (xs @ [c]) = Some c" by (simp add: last_or_def)
lemma last_or_Cons [simp]: "last_or p (c # xs) = last_or (Some c) xs" by (simp add: last_or_def)
lemma last_or_append [simp]: "last_or p (xs @ ys) = last_or (last_or p xs) ys" by (simp add: last_or_def)

lemma new_Set_foldl_set: "set (foldl set_add acc xs) = set acc \<union> set xs"
  by (induction xs arbitrary: acc) (auto simp: set_add_def)

lemma new_Set_foldl_distinct: "distinct acc \<Longrightarrow> distinct (foldl set_add acc xs)"
  by (induction xs arbitrary: acc) (auto simp: set_add_def)

lemma set_new_Set: "set (new_Set xs) = set xs"
  by (simp add: new_Set_def new_Set_foldl_set)

lemma distinct_new_Set: "distinct (new_Set xs)"
  by (simp add: new_Set_def new_Set_foldl_distinct)

lemma filter_notin_snoc:
  "filter (\<lambda>y. y \<notin> set (acc @ [x])) xs
     = filter (\<lambda>y. y \<noteq> x) (filter (\<lambda>y. y \<notin> set acc) xs)"
  by (induction xs) simp_all

lemma foldl_set_add_first_occurrences:
  "foldl set_add acc xs = acc @ first_occurrences (filter (\<lambda>y. y \<notin> set acc) xs)"
proof (induction xs arbitrary: acc)
  case Nil
  show ?case by simp
next
  case (Cons x xs)
  show ?case
  proof (cases "x \<in> set acc")
    case True
    then show ?thesis using Cons [of acc] by (simp add: set_add_def)
  next
    case False
    then have "foldl set_add acc (x # xs) = foldl set_add (acc @ [x]) xs"
      by (simp add: set_add_def)
    also have "\<dots> = (acc @ [x]) @ first_occurrences
        (filter (\<lambda>y. y \<noteq> x) (filter (\<lambda>y. y \<notin> set acc) xs))"
      using Cons [of "acc @ [x]"] by (simp only: filter_notin_snoc)
    finally show ?thesis using False by simp
  qed
qed

lemma new_Set_first_occurrences: "new_Set xs = first_occurrences xs"
  by (simp add: new_Set_def foldl_set_add_first_occurrences)

lemma set_first_occurrences: "set (first_occurrences xs) = set xs"
  by (induction xs rule: first_occurrences.induct) auto

lemma first_index_filter:
  "a \<noteq> x \<Longrightarrow> b \<noteq> x \<Longrightarrow>
   first_index (filter (\<lambda>y. y \<noteq> x) xs) a < first_index (filter (\<lambda>y. y \<noteq> x) xs) b
   \<Longrightarrow> first_index xs a < first_index xs b"
  by (induction xs) (auto simp: first_index_def split: if_splits)

lemma first_index_Cons:
  "first_index (x # xs) a = (if a = x then 0 else Suc (first_index xs a))"
  by (auto simp: first_index_def)

lemma first_index_order_first_occurrences:
  "sorted_wrt (\<lambda>a b. first_index xs a < first_index xs b) (first_occurrences xs)"
proof (induction xs rule: first_occurrences.induct)
  case 1
  show ?case by simp
next
  case (2 x xs)
  let ?zs = "filter (\<lambda>y. y \<noteq> x) xs"
  have mem: "a \<noteq> x" if "a \<in> set (first_occurrences ?zs)" for a
    using that by (simp add: set_first_occurrences)
  have "sorted_wrt (\<lambda>a b. first_index (x # xs) a < first_index (x # xs) b) (first_occurrences ?zs)"
  proof (rule sorted_wrt_mono_rel [OF _ "2.IH"])
    fix a b assume a: "a \<in> set (first_occurrences ?zs)" and b: "b \<in> set (first_occurrences ?zs)"
      and lt: "first_index ?zs a < first_index ?zs b"
    have "first_index xs a < first_index xs b"
      by (rule first_index_filter [OF mem [OF a] mem [OF b] lt])
    then show "first_index (x # xs) a < first_index (x # xs) b"
      by (simp add: first_index_Cons mem [OF a] mem [OF b])
  qed
  moreover have "first_index (x # xs) x < first_index (x # xs) b"
    if "b \<in> set (first_occurrences ?zs)" for b
    by (simp add: first_index_Cons mem [OF that])
  ultimately show ?case by simp
qed

lemma rmatch_Star:
  "rmatch (Star P # r) p s = Some n \<Longrightarrow>
     \<exists>xs ys. s = xs @ ys \<and> list_all P xs \<and> length xs \<le> n
       \<and> rmatch r (last_or p xs) ys = Some (n - length xs)"
proof (induction s arbitrary: p n)
  case Nil
  then show ?case by simp
next
  case (Cons c cs)
  show ?case
  proof (cases "P c \<and> rmatch (Star P # r) (Some c) cs \<noteq> None")
    case True
    then obtain k where k: "rmatch (Star P # r) (Some c) cs = Some k" by auto
    with True Cons.prems have n: "n = Suc k" by simp
    from Cons.IH [OF k] obtain xs ys where
      "cs = xs @ ys" "list_all P xs" "length xs \<le> k"
      "rmatch r (last_or (Some c) xs) ys = Some (k - length xs)" by blast
    then have "c # cs = (c # xs) @ ys \<and> list_all P (c # xs) \<and> length (c # xs) \<le> n
       \<and> rmatch r (last_or p (c # xs)) ys = Some (n - length (c # xs))"
      using True n by simp
    then show ?thesis by blast
  next
    case False
    then have "rmatch r p (c # cs) = Some n"
      using Cons.prems by (auto split: if_splits option.splits)
    then have "c # cs = [] @ (c # cs) \<and> list_all P [] \<and> length ([]::jsstring) \<le> n
       \<and> rmatch r (last_or p []) (c # cs) = Some (n - length ([]::jsstring))"
      by simp
    then show ?thesis by blast
  qed
qed

lemma rmatch_Cls:
  "rmatch (Cls P # r) p s = Some n \<Longrightarrow>
     \<exists>c cs k. s = c # cs \<and> P c \<and> n = Suc k \<and> rmatch r (Some c) cs = Some k"
  by (cases s) (auto split: if_splits)

lemma rmatch_follow:
  "rmatch [Look [Alt [Cls is_separator] [End]]] p s = Some n \<Longrightarrow>
     n = 0 \<and> (s = [] \<or> is_separator (hd s))"
  by (cases s) (auto split: if_splits option.splits)

lemma rmatch_jiraPattern:
  assumes "rmatch jiraPattern p s = Some n"
  shows "\<exists>u ks ds post. s = (u # ks @ of_char CHR ''-'' # ds) @ post
     \<and> n = length (u # ks @ of_char CHR ''-'' # ds)
     \<and> is_upper u \<and> list_all is_upper_digit ks \<and> ds \<noteq> [] \<and> list_all is_digit ds
     \<and> (post = [] \<or> is_separator (hd post)) \<and> \<not> word_before p"
proof -
  let ?F = "[Look [Alt [Cls is_separator] [End]]]"
  let ?r3 = "Star is_digit # ?F"
  let ?r2 = "Cls is_digit # ?r3"
  let ?r1 = "Cls (is_char CHR ''-'') # ?r2"
  let ?r0 = "Star is_upper_digit # ?r1"
  have pat: "jiraPattern = WordB # Cls is_upper # ?r0"
    by (simp add: jiraPattern_def Plus_def)
  from assms have wb: "word_before p \<noteq> word_after s" and m0: "rmatch (Cls is_upper # ?r0) p s = Some n"
    unfolding pat by (auto split: if_splits)
  from rmatch_Cls [OF m0] obtain u s1 n1 where
    s: "s = u # s1" and u: "is_upper u" and n: "n = Suc n1" and m1: "rmatch ?r0 (Some u) s1 = Some n1"
    by blast
  from rmatch_Star [OF m1] obtain ks s2 where
    s1: "s1 = ks @ s2" and ks: "list_all is_upper_digit ks" and lks: "length ks \<le> n1"
    and m2: "rmatch ?r1 (last_or (Some u) ks) s2 = Some (n1 - length ks)" by blast
  from rmatch_Cls [OF m2] obtain h s3 n3 where
    s2: "s2 = h # s3" and h: "is_char CHR ''-'' h" and n1: "n1 - length ks = Suc n3"
    and m3: "rmatch ?r2 (Some h) s3 = Some n3" by blast
  from rmatch_Cls [OF m3] obtain d s4 n4 where
    s3: "s3 = d # s4" and d: "is_digit d" and n3: "n3 = Suc n4"
    and m4: "rmatch ?r3 (Some d) s4 = Some n4" by blast
  from rmatch_Star [OF m4] obtain ds post where
    s4: "s4 = ds @ post" and ds: "list_all is_digit ds" and lds: "length ds \<le> n4"
    and m5: "rmatch ?F (last_or (Some d) ds) post = Some (n4 - length ds)" by blast
  from rmatch_follow [OF m5] have n4: "n4 - length ds = 0" and post: "post = [] \<or> is_separator (hd post)"
    by simp_all
  have "word_after s" using s u by (simp add: word_after_def is_word_def is_alnum_def)
  with wb have "\<not> word_before p" by simp
  moreover have "s = (u # ks @ of_char CHR ''-'' # (d # ds)) @ post"
    using s s1 s2 s3 s4 h by (simp add: is_char_def)
  moreover have "n = length (u # ks @ of_char CHR ''-'' # (d # ds))"
    using n n1 n3 n4 lks lds by simp
  ultimately show ?thesis
    using u ks d ds post by (intro exI [of _ u] exI [of _ ks] exI [of _ "d # ds"] exI [of _ post]) simp
qed

lemma match_all_occurrence:
  "m \<in> set (match_all re p s) \<Longrightarrow>
     \<exists>pre post. s = pre @ m @ post \<and> rmatch re (last_or p pre) (m @ post) = Some (length m)"
proof (induction re p s rule: match_all.induct)
  case (1 re p s)
  show ?case
  proof (cases "rmatch re p s")
    case None
    with "1.prems" obtain c cs where s: "s = c # cs" and m: "m \<in> set (match_all re (Some c) cs)"
      by (subst (asm) match_all.simps) (auto split: list.splits)
    from "1.IH"(1) [OF None s m] obtain pre post where
      "cs = pre @ m @ post" "rmatch re (last_or (Some c) pre) (m @ post) = Some (length m)" by blast
    then have "s = (c # pre) @ m @ post \<and> rmatch re (last_or p (c # pre)) (m @ post) = Some (length m)"
      using s by simp
    then show ?thesis by blast
  next
    case (Some n)
    show ?thesis
    proof (cases n)
      case 0
      with Some "1.prems" have "m = [] \<or> (\<exists>c cs. s = c # cs \<and> m \<in> set (match_all re (Some c) cs))"
        by (subst (asm) match_all.simps) (auto split: list.splits)
      then show ?thesis
      proof
        assume "m = []"
        then have "s = [] @ m @ s \<and> rmatch re (last_or p []) (m @ s) = Some (length m)"
          using Some 0 by simp
        then show ?thesis by blast
      next
        assume "\<exists>c cs. s = c # cs \<and> m \<in> set (match_all re (Some c) cs)"
        then obtain c cs where s: "s = c # cs" and m: "m \<in> set (match_all re (Some c) cs)" by blast
        from "1.IH"(2) [OF Some 0 s m] obtain pre post where
          "cs = pre @ m @ post" "rmatch re (last_or (Some c) pre) (m @ post) = Some (length m)" by blast
        then have "s = (c # pre) @ m @ post \<and> rmatch re (last_or p (c # pre)) (m @ post) = Some (length m)"
          using s by simp
        then show ?thesis by blast
      qed
    next
      case (Suc k)
      have le: "Suc k \<le> length s" using rmatch_le [OF Some] Suc by simp
      from Some Suc "1.prems" have
        "m = take (Suc k) s \<or> m \<in> set (match_all re (Some (s ! k)) (drop (Suc k) s))"
        by (subst (asm) match_all.simps) auto
      then show ?thesis
      proof
        assume m: "m = take (Suc k) s"
        then have "s = [] @ m @ drop (Suc k) s \<and>
          rmatch re (last_or p []) (m @ drop (Suc k) s) = Some (length m)"
          using Some Suc le by simp
        then show ?thesis by blast
      next
        assume "m \<in> set (match_all re (Some (s ! k)) (drop (Suc k) s))"
        from "1.IH"(3) [OF Some Suc this] obtain pre post where
          d: "drop (Suc k) s = pre @ m @ post"
          and r: "rmatch re (last_or (Some (s ! k)) pre) (m @ post) = Some (length m)" by blast
        have "take (Suc k) s = take k s @ [s ! k]"
          using le by (simp add: take_Suc_conv_app_nth)
        then have "last_or p (take (Suc k) s @ pre) = last_or (Some (s ! k)) pre"
          by simp
        moreover have "s = (take (Suc k) s @ pre) @ m @ post"
          using d by (metis append_assoc append_take_drop_id)
        ultimately have "s = (take (Suc k) s @ pre) @ m @ post \<and>
          rmatch re (last_or p (take (Suc k) s @ pre)) (m @ post) = Some (length m)"
          using r by simp
        then show ?thesis by blast
      qed
    qed
  qed
qed

text \<open>
  All the matches of a pattern in a text, from left to right and without overlap:
  \<open>scans re p s ms\<close> holds when \<open>s\<close> (with \<open>p\<close> the code unit before it) is a gap,
  no position of which starts a match, followed by the first match \<open>m\<close>, which is what
  the pattern consumes at the first position that starts one, followed by a rest of
  which the same holds with the other elements of \<open>ms\<close>; and when no position of \<open>s\<close>
  starts a match and \<open>ms\<close> is empty. Every match is an element of its own: equal
  matches at different places stay apart.
\<close>

inductive scans :: "node list \<Rightarrow> code_unit option \<Rightarrow> jsstring \<Rightarrow> jsstring list \<Rightarrow> bool"
  for re :: "node list" where
  scans_none:
    "(\<And>a b. s = a @ b \<Longrightarrow> rmatch re (last_or p a) b = None) \<Longrightarrow> scans re p s []"
| scans_match:
    "s = g @ m @ rest \<Longrightarrow> m \<noteq> [] \<Longrightarrow>
     (\<And>a b. g = a @ b \<Longrightarrow> b \<noteq> [] \<Longrightarrow> rmatch re (last_or p a) (b @ m @ rest) = None) \<Longrightarrow>
     rmatch re (last_or p g) (m @ rest) = Some (length m) \<Longrightarrow>
     scans re (Some (last m)) rest ms \<Longrightarrow>
     scans re p s (m # ms)"

lemma scans_shift:
  assumes "rmatch re p (c # cs) = None" and "scans re (Some c) cs ms"
  shows "scans re p (c # cs) ms"
  using assms(2)
proof (cases rule: scans.cases)
  case scans_none
  show ?thesis unfolding \<open>ms = []\<close>
  proof (rule scans.scans_none)
    fix a b assume ab: "c # cs = a @ b"
    show "rmatch re (last_or p a) b = None"
    proof (cases a)
      case Nil
      with ab assms(1) show ?thesis by simp
    next
      case (Cons x a')
      with ab have "cs = a' @ b" "x = c" by simp_all
      with scans_none(2) [of a' b] Cons show ?thesis by simp
    qed
  qed
next
  case (scans_match g m rest ms')
  show ?thesis unfolding \<open>ms = m # ms'\<close>
  proof (rule scans.scans_match [where g = "c # g" and rest = rest])
    show "c # cs = (c # g) @ m @ rest" using scans_match(2) by simp
    show "m \<noteq> []" by (rule scans_match(3))
    show "rmatch re (last_or p (c # g)) (m @ rest) = Some (length m)"
      using scans_match(5) by simp
    show "scans re (Some (last m)) rest ms'" by (rule scans_match(6))
    fix a b assume ab: "c # g = a @ b" and b: "b \<noteq> []"
    show "rmatch re (last_or p a) (b @ m @ rest) = None"
    proof (cases a)
      case Nil
      with ab have "b @ m @ rest = c # cs" using scans_match(2) by simp
      with assms(1) Nil show ?thesis by simp
    next
      case (Cons x a')
      with ab have "g = a' @ b" "x = c" by simp_all
      with scans_match(4) [of a' b] b Cons show ?thesis by simp
    qed
  qed
qed

lemma match_all_scans:
  "\<forall>p s. rmatch re p s \<noteq> Some 0 \<Longrightarrow> scans re p s (match_all re p s)"
proof (induction re p s rule: match_all.induct)
  case (1 re p s)
  show ?case
  proof (cases "rmatch re p s")
    case None
    show ?thesis
    proof (cases s)
      case Nil
      have "scans re p [] []"
        using None Nil by (intro scans_none) simp
      then show ?thesis using None Nil by (subst match_all.simps) simp
    next
      case (Cons c cs)
      have "scans re (Some c) cs (match_all re (Some c) cs)"
        by (rule "1.IH"(1) [OF None Cons "1.prems"])
      then have "scans re p (c # cs) (match_all re (Some c) cs)"
        using None Cons by (intro scans_shift) simp_all
      then show ?thesis using None Cons by (subst match_all.simps) simp
    qed
  next
    case (Some n)
    then obtain k where n: "n = Suc k" using "1.prems" by (cases n) auto
    have le: "Suc k \<le> length s" using rmatch_le [OF Some] n by simp
    let ?m = "take (Suc k) s" and ?rest = "drop (Suc k) s"
    have tk: "?m = take k s @ [s ! k]"
      using le by (simp add: take_Suc_conv_app_nth)
    have "scans re (Some (s ! k)) ?rest (match_all re (Some (s ! k)) ?rest)"
      by (rule "1.IH"(3) [OF Some n "1.prems"])
    then have "scans re p s (?m # match_all re (Some (s ! k)) ?rest)"
    proof (intro scans_match [where g = "[]" and rest = ?rest])
      show "s = [] @ ?m @ ?rest" by simp
      show "?m \<noteq> []" using tk by simp
      show "rmatch re (last_or p []) (?m @ ?rest) = Some (length ?m)"
        using Some n le by simp
      show "scans re (Some (last ?m)) ?rest (match_all re (Some (s ! k)) ?rest)"
        if "scans re (Some (s ! k)) ?rest (match_all re (Some (s ! k)) ?rest)"
        using that tk by simp
    qed simp
    then show ?thesis using Some n by (subst match_all.simps) simp
  qed
qed

lemma jiraPattern_nonempty: "rmatch jiraPattern p s \<noteq> Some 0"
proof
  assume "rmatch jiraPattern p s = Some 0"
  from rmatch_jiraPattern [OF this] show False by auto
qed

lemma jiraPattern_scans: "scans jiraPattern None text (match_all jiraPattern None text)"
  by (rule match_all_scans) (simp add: jiraPattern_nonempty)

lemma not_upper_digit_hyphen: "\<not> is_upper_digit (of_char CHR ''-'')"
  by (simp add: is_upper_digit_def is_upper_def is_digit_def)

lemma ticket_shapeI:
  "is_upper u \<Longrightarrow> list_all is_upper_digit ks \<Longrightarrow> ds \<noteq> [] \<Longrightarrow> list_all is_digit ds
     \<Longrightarrow> ticket_shape (u # ks @ of_char CHR ''-'' # ds)"
  using not_upper_digit_hyphen
  by (simp add: ticket_shape_def dropWhile_append2 list_all_iff)

lemma extractJiraTickets_occurrence:
  assumes "m \<in> set (extractJiraTickets text)"
  shows "\<exists>pre post. text = pre @ m @ post
     \<and> rmatch jiraPattern (last_or None pre) (m @ post) = Some (length m)
     \<and> ticket_shape m
     \<and> (post = [] \<or> is_separator (hd post))
     \<and> \<not> word_before (last_or None pre)"
proof -
  from assms have "m \<in> set (match_all jiraPattern None text)"
    by (simp add: extractJiraTickets_def set_new_Set)
  from match_all_occurrence [OF this] obtain pre post where
    t: "text = pre @ m @ post" and r: "rmatch jiraPattern (last_or None pre) (m @ post) = Some (length m)"
    by blast
  from rmatch_jiraPattern [OF r] obtain u ks ds post' where
    eq: "m @ post = (u # ks @ of_char CHR ''-'' # ds) @ post'"
    and len: "length m = length (u # ks @ of_char CHR ''-'' # ds)"
    and sh: "is_upper u" "list_all is_upper_digit ks" "ds \<noteq> []" "list_all is_digit ds"
    and fo: "post' = [] \<or> is_separator (hd post')"
    and wb: "\<not> word_before (last_or None pre)" by blast
  from eq len have "m = u # ks @ of_char CHR ''-'' # ds" "post = post'"
    using append_eq_append_conv [of m "u # ks @ of_char CHR ''-'' # ds" post post'] by blast+
  with sh fo wb t r show ?thesis
    using ticket_shapeI [OF sh] by blast
qed

section \<open>The claims about the ticket reference extractor\<close>

text \<open>
  Claim C3. For every input text the list of matches that the extractor starts from is
  the list of all the matches of the pattern in the text, from left to right and without
  overlap. The extractor returns the first occurrences of that list: a list without
  duplicates, whose elements are exactly the matches, in the order in which each is first
  matched (the positions of first occurrence in the list of matches increase along the
  result). On \<^verbatim>\<open>Fix ABC-123 and abc-999 for ABC-123/ui\<close> the result is
  \<^verbatim>\<open>["ABC-123"]\<close>: the lowercase key does not match, the second \<^verbatim>\<open>ABC-123\<close> is
  dropped. On \<^verbatim>\<open>XY-2 then ABC-1 see XY-2/ui and Q7-30_x ABC-1\<close> the result is
  \<^verbatim>\<open>["XY-2", "ABC-1", "Q7-30"]\<close>.
\<close>

theorem extractJiraTickets_no_duplicates_first_occurrence_order:
  "scans jiraPattern None text (match_all jiraPattern None text)
   \<and> extractJiraTickets text = first_occurrences (match_all jiraPattern None text)
   \<and> distinct (extractJiraTickets text)
   \<and> set (extractJiraTickets text) = set (match_all jiraPattern None text)
   \<and> sorted_wrt (\<lambda>a b. first_index (match_all jiraPattern None text) a
                        < first_index (match_all jiraPattern None text) b)
        (extractJiraTickets text)
   \<and> extractJiraTickets (str ''Fix ABC-123 and abc-999 for ABC-123/ui'') = [str ''ABC-123'']
   \<and> extractJiraTickets (str ''XY-2 then ABC-1 see XY-2/ui and Q7-30_x ABC-1'')
       = [str ''XY-2'', str ''ABC-1'', str ''Q7-30'']"
proof -
  have "extractJiraTickets (str ''Fix ABC-123 and abc-999 for ABC-123/ui'') = [str ''ABC-123'']"
    by code_simp
  moreover have "extractJiraTickets (str ''XY-2 then ABC-1 see XY-2/ui and Q7-30_x ABC-1'')
       = [str ''XY-2'', str ''ABC-1'', str ''Q7-30'']"
    by code_simp
  moreover have "scans jiraPattern None text (match_all jiraPattern None text)"
    by (rule jiraPattern_scans)
  moreover have "extractJiraTickets text = first_occurrences (match_all jiraPattern None text)"
    by (simp add: extractJiraTickets_def new_Set_first_occurrences)
  moreover have "distinct (extractJiraTickets text)"
    by (simp add: extractJiraTickets_def distinct_new_Set)
  moreover have "set (extractJiraTickets text) = set (match_all jiraPattern None text)"
    by (simp add: extractJiraTickets_def set_new_Set)
  moreover have "sorted_wrt (\<lambda>a b. first_index (match_all jiraPattern None text) a
                        < first_index (match_all jiraPattern None text) b)
        (extractJiraTickets text)"
    unfolding extractJiraTickets_def new_Set_first_occurrences
    by (rule first_index_order_first_occurrences)
  ultimately show ?thesis by blast
qed

theorem extractJiraTickets_no_duplicates_first_occurrence_order_witness:
  "scans jiraPattern None (str ''XY-2 then ABC-1 see XY-2/ui'')
     [str ''XY-2'', str ''ABC-1'', str ''XY-2'']
   \<and> extractJiraTickets (str ''XY-2 then ABC-1 see XY-2/ui'') = [str ''XY-2'', str ''ABC-1'']
   \<and> first_occurrences [str ''XY-2'', str ''ABC-1'', str ''XY-2''] = [str ''XY-2'', str ''ABC-1'']"
proof -
  have m: "match_all jiraPattern None (str ''XY-2 then ABC-1 see XY-2/ui'')
      = [str ''XY-2'', str ''ABC-1'', str ''XY-2'']"
    by code_simp
  have e: "extractJiraTickets (str ''XY-2 then ABC-1 see XY-2/ui'') = [str ''XY-2'', str ''ABC-1'']"
    by code_simp
  have "scans jiraPattern None (str ''XY-2 then ABC-1 see XY-2/ui'')
      (match_all jiraPattern None (str ''XY-2 then ABC-1 see XY-2/ui''))
    \<and> extractJiraTickets (str ''XY-2 then ABC-1 see XY-2/ui'')
      = first_occurrences (match_all jiraPattern None (str ''XY-2 then ABC-1 see XY-2/ui''))"
    using extractJiraTickets_no_duplicates_first_occurrence_order
      [of "str ''XY-2 then ABC-1 see XY-2/ui''"] by blast
  then show ?thesis unfolding m using e by simp
qed

text \<open>
  Claim C4. Every ticket that the extractor returns is matched at a place of the text
  where it has the shape of the grammar (an uppercase letter, uppercase letters or
  digits, a hyphen, digits) and is followed at once by the end of the text or by one of
  the separators underscore, hyphen, whitespace and slash; the separator stays outside
  the match. No ticket is found in \<^verbatim>\<open>ABC-123X\<close>; \<^verbatim>\<open>ABC-123\<close> is found in
  \<^verbatim>\<open>ABC-123-fix\<close> and in \<^verbatim>\<open>ABC-123\<close>.
\<close>

theorem extractJiraTickets_followed_by_separator:
  "(\<forall>m \<in> set (extractJiraTickets text).
      \<exists>pre post. text = pre @ m @ post
        \<and> rmatch jiraPattern (last_or None pre) (m @ post) = Some (length m)
        \<and> ticket_shape m
        \<and> (post = [] \<or> is_separator (hd post)))
   \<and> extractJiraTickets (str ''ABC-123X'') = []
   \<and> extractJiraTickets (str ''ABC-123-fix'') = [str ''ABC-123'']
   \<and> extractJiraTickets (str ''ABC-123'') = [str ''ABC-123'']"
proof -
  have "extractJiraTickets (str ''ABC-123X'') = []" by code_simp
  moreover have "extractJiraTickets (str ''ABC-123-fix'') = [str ''ABC-123'']" by code_simp
  moreover have "extractJiraTickets (str ''ABC-123'') = [str ''ABC-123'']" by code_simp
  moreover have "\<forall>m \<in> set (extractJiraTickets text).
      \<exists>pre post. text = pre @ m @ post
        \<and> rmatch jiraPattern (last_or None pre) (m @ post) = Some (length m)
        \<and> ticket_shape m
        \<and> (post = [] \<or> is_separator (hd post))"
    using extractJiraTickets_occurrence by blast
  ultimately show ?thesis by blast
qed

theorem extractJiraTickets_followed_by_separator_witness:
  "str ''ABC-123'' \<in> set (extractJiraTickets (str ''ABC-123-fix''))
   \<and> (\<exists>pre post. str ''ABC-123-fix'' = pre @ str ''ABC-123'' @ post
        \<and> rmatch jiraPattern (last_or None pre) (str ''ABC-123'' @ post) = Some (length (str ''ABC-123''))
        \<and> ticket_shape (str ''ABC-123'')
        \<and> (post = [] \<or> is_separator (hd post)))"
proof -
  have mem: "str ''ABC-123'' \<in> set (extractJiraTickets (str ''ABC-123-fix''))"
    by code_simp
  from extractJiraTickets_followed_by_separator [of "str ''ABC-123-fix''"] mem
  show ?thesis by blast
qed

text \<open>
  Claim C10. A match starts at a word boundary only: every returned ticket is matched
  at the start of the text or after a code unit that is not a word character, and at a
  position that follows a word character (an ASCII letter, a digit or an underscore, the
  word characters of \<^verbatim>\<open>\b\<close>) the pattern never matches. No ticket is found in
  \<^verbatim>\<open>xABC-123\<close> or in \<^verbatim>\<open>9ABC-123\<close>.
\<close>

theorem extractJiraTickets_word_boundary:
  "(\<forall>m \<in> set (extractJiraTickets text).
      \<exists>pre post. text = pre @ m @ post
        \<and> rmatch jiraPattern (last_or None pre) (m @ post) = Some (length m)
        \<and> (pre = [] \<or> \<not> is_word (last pre)))
   \<and> (\<forall>pre s. pre \<noteq> [] \<and> is_word (last pre) \<longrightarrow> rmatch jiraPattern (Some (last pre)) s = None)
   \<and> extractJiraTickets (str ''xABC-123'') = []
   \<and> extractJiraTickets (str ''9ABC-123'') = []"
proof -
  have "extractJiraTickets (str ''xABC-123'') = []" by code_simp
  moreover have "extractJiraTickets (str ''9ABC-123'') = []" by code_simp
  moreover have "\<exists>pre post. text = pre @ m @ post
        \<and> rmatch jiraPattern (last_or None pre) (m @ post) = Some (length m)
        \<and> (pre = [] \<or> \<not> is_word (last pre))"
    if "m \<in> set (extractJiraTickets text)" for m
  proof -
    from extractJiraTickets_occurrence [OF that] obtain pre post where
      "text = pre @ m @ post" "rmatch jiraPattern (last_or None pre) (m @ post) = Some (length m)"
      "\<not> word_before (last_or None pre)" by blast
    moreover from this have "pre = [] \<or> \<not> is_word (last pre)"
      by (auto simp: last_or_def word_before_def)
    ultimately show ?thesis by blast
  qed
  moreover have "rmatch jiraPattern (Some (last pre)) s = None" if "is_word (last pre)" for pre s
  proof (cases "rmatch jiraPattern (Some (last pre)) s")
    case None then show ?thesis .
  next
    case (Some n)
    from rmatch_jiraPattern [OF Some] that show ?thesis by (simp add: word_before_def)
  qed
  ultimately show ?thesis by blast
qed

theorem extractJiraTickets_word_boundary_witness:
  "str ''ABC-123'' \<in> set (extractJiraTickets (str ''fix ABC-123''))
   \<and> (\<exists>pre post. str ''fix ABC-123'' = pre @ str ''ABC-123'' @ post
        \<and> rmatch jiraPattern (last_or None pre) (str ''ABC-123'' @ post) = Some (length (str ''ABC-123''))
        \<and> (pre = [] \<or> \<not> is_word (last pre)))
   \<and> [of_char CHR ''x''] \<noteq> [] \<and> is_word (last [of_char CHR ''x''])
   \<and> rmatch jiraPattern (Some (last [of_char CHR ''x''])) (str ''ABC-123'') = None"
proof -
  have mem: "str ''ABC-123'' \<in> set (extractJiraTickets (str ''fix ABC-123''))"
    by code_simp
  have w: "[of_char CHR ''x''] \<noteq> [] \<and> is_word (last [of_char CHR ''x'' :: code_unit])"
    by (simp add: is_word_def is_alnum_def is_lower_def)
  from extractJiraTickets_word_boundary [of "str ''fix ABC-123''"] mem w
  show ?thesis by blast
qed

section \<open>The claim about the title\<close>

lemma endsWith_append_self: "endsWith (s @ t) t"
  by (simp add: endsWith_def)

lemma finalTitle_endsWith: "endsWith (finalTitle title) aiSignature"
  by (simp add: finalTitle_def endsWith_append_self)

lemma finalTitle_fixed: "endsWith title aiSignature \<Longrightarrow> finalTitle title = title"
  by (simp add: finalTitle_def)

text \<open>
  Claim C7. Suffixing the title is idempotent: the signature is appended exactly when
  the title does not end with it, a title that ends with it stays as it is, and
  suffixing twice gives what suffixing once gives; \<^verbatim>\<open>Fix bug\<close> with the signature
  stays as it is. The title of the POST request is the suffixed title.
\<close>

theorem finalTitle_idempotent:
  "finalTitle (finalTitle title) = finalTitle title
   \<and> (endsWith title aiSignature \<longrightarrow> finalTitle title = title)
   \<and> (\<not> endsWith title aiSignature \<longrightarrow> finalTitle title = title @ aiSignature)
   \<and> finalTitle (str ''Fix bug'' @ aiSignature) = str ''Fix bug'' @ aiSignature
   \<and> (create_pull_request_request io owner repo title head base body draft include_diff_analysis w
          = (Some (u, p), w') \<longrightarrow> pr_title p = finalTitle title)"
proof -
  have "finalTitle (finalTitle title) = finalTitle title"
    by (rule finalTitle_fixed [OF finalTitle_endsWith])
  moreover have "finalTitle (str ''Fix bug'' @ aiSignature) = str ''Fix bug'' @ aiSignature"
    by (rule finalTitle_fixed [OF endsWith_append_self])
  moreover have "pr_title p = finalTitle title"
    if "create_pull_request_request io owner repo title head base body draft include_diff_analysis w
          = (Some (u, p), w')"
    using that
    by (auto simp: create_pull_request_request_def split: option.splits prod.splits)
  ultimately show ?thesis
    by (simp add: finalTitle_def)
qed

text \<open>
  A world in which every request is rejected, and the titles \<^verbatim>\<open>Fix bug\<close> with the
  signature and without it.
\<close>

definition no_network :: "unit io" where
  "no_network =
     \<lparr> jira_get = (\<lambda>u h w. (Inl (JsError (str ''AxiosError'') (str ''Network Error'')), w)),
       compare_get = (\<lambda>u h w. (Inl (JsError (str ''AxiosError'') (str ''Network Error'')), w)),
       llm_invoke = (\<lambda>p w. (Inl (JsError (str ''Error'') (str ''Connection error.'')), w)),
       JIRA_API_TOKEN = Undefined,
       GITHUB_TOKEN = Val (str ''t0ken''),
       AI_USERNAME = Val (str ''sid''),
       AI_BASE_URL = Val (str ''https://llm.example/v1''),
       AI_API_KEY = Val (str ''k3y''),
       AI_MODEL = Val (str ''gpt''),
       toLowerCase = (\<lambda>s. s),
       toUpperCase = (\<lambda>s. s) \<rparr>"

theorem finalTitle_idempotent_witness:
  "endsWith (str ''Fix bug'' @ aiSignature) aiSignature
   \<and> finalTitle (str ''Fix bug'' @ aiSignature) = str ''Fix bug'' @ aiSignature
   \<and> \<not> endsWith (str ''Fix bug'') aiSignature
   \<and> finalTitle (str ''Fix bug'') = str ''Fix bug'' @ aiSignature
   \<and> finalTitle (finalTitle (str ''Fix bug'')) = finalTitle (str ''Fix bug'')
   \<and> create_pull_request_request no_network (str ''o'') (str ''r'') (str ''Fix bug'') (str ''h'')
        (str ''b'') (str ''text'') False False ()
      = (Some (GITHUB_API_BASE @ str ''/repos/o/r/pulls'',
               \<lparr> pr_title = str ''Fix bug'' @ aiSignature, pr_head = str ''h'', pr_base = str ''b'',
                 pr_body = str ''text'', pr_draft = False \<rparr>), ())"
proof -
  have 1: "endsWith (str ''Fix bug'' @ aiSignature) aiSignature"
    by (rule endsWith_append_self)
  have 2: "\<not> endsWith (str ''Fix bug'') aiSignature"
    by (simp add: endsWith_def aiSignature_def str_def)
  have 3: "create_pull_request_request no_network (str ''o'') (str ''r'') (str ''Fix bug'') (str ''h'')
        (str ''b'') (str ''text'') False False ()
      = (Some (GITHUB_API_BASE @ str ''/repos/o/r/pulls'',
               \<lparr> pr_title = finalTitle (str ''Fix bug''), pr_head = str ''h'', pr_base = str ''b'',
                 pr_body = str ''text'', pr_draft = False \<rparr>), ())"
    by (simp add: create_pull_request_request_def validateGitHubToken_def no_network_def str_def)
  from finalTitle_idempotent [of "str ''Fix bug'' @ aiSignature"]
    finalTitle_idempotent [of "str ''Fix bug''" no_network "str ''o''" "str ''r''" "str ''h''"
      "str ''b''" "str ''text''" False False "()"] 1 2 3
  show ?thesis by simp
qed

section \<open>The counts of the change-analysis block\<close>

definition count_status :: "string \<Rightarrow> file_change list \<Rightarrow> nat" where
  "count_status s filesChanged = length (filter (\<lambda>f. file_status f = str s) filesChanged)"

lemma changeAnalysis_of_shape:
  "\<exists>tail. changeAnalysis_of filesChanged =
       lines [str ''- **New Files Added:** ''
                @ show_nat (length (filter (\<lambda>f. file_status f = str ''added'') filesChanged)),
              str ''- **Files Modified:** ''
                @ show_nat (length (filter (\<lambda>f. file_status f = str ''modified'') filesChanged)),
              str ''- **Files Deleted:** ''
                @ show_nat (length (filter (\<lambda>f. file_status f = str ''removed'') filesChanged)),
              str ''- **Total Files Changed:** '' @ show_nat (length filesChanged)] @ tail
     \<and> (tail = [] \<or> (\<exists>histogram. tail = lines [[], [], str ''**File Type Analysis:**'', histogram]))"
proof (cases "length (fileTypes_of filesChanged) > 0")
  case True
  then show ?thesis
    by (simp add: changeAnalysis_of_def Let_def del: append_assoc) blast
next
  case False
  then show ?thesis
    by (simp add: changeAnalysis_of_def Let_def)
qed

lemma status_names_distinct:
  "str ''added'' \<noteq> str ''modified''" "str ''added'' \<noteq> str ''removed''"
  "str ''modified'' \<noteq> str ''removed''"
  "str ''renamed'' \<noteq> str ''added''" "str ''renamed'' \<noteq> str ''modified''"
  "str ''renamed'' \<noteq> str ''removed''"
  by (simp_all add: str_def)

lemma count_status_le:
  "count_status ''added'' fs + count_status ''modified'' fs + count_status ''removed'' fs
     \<le> length fs"
  using status_names_distinct
  by (induction fs) (auto simp: count_status_def)

lemma count_status_renamed:
  "\<exists>f \<in> set fs. file_status f = str ''renamed'' \<Longrightarrow>
   count_status ''added'' fs + count_status ''modified'' fs + count_status ''removed'' fs
     < length fs"
proof (induction fs)
  case Nil
  then show ?case by simp
next
  case (Cons f fs)
  show ?case
  proof (cases "file_status f = str ''renamed''")
    case True
    then have "count_status ''added'' (f # fs) + count_status ''modified'' (f # fs)
        + count_status ''removed'' (f # fs)
      = count_status ''added'' fs + count_status ''modified'' fs + count_status ''removed'' fs"
      using status_names_distinct by (simp add: count_status_def)
    then show ?thesis using count_status_le [of fs] by simp
  next
    case False
    with Cons.prems have "\<exists>f \<in> set fs. file_status f = str ''renamed''" by auto
    from Cons.IH [OF this] show ?thesis
      using status_names_distinct by (auto simp: count_status_def)
  qed
qed

text \<open>A renamed file and an added one.\<close>

definition two_files :: "file_change list" where
  "two_files =
     [\<lparr> filename = str ''src/a.js'', file_status = str ''renamed'', file_additions = 0,
        file_deletions = 0 \<rparr>,
      \<lparr> filename = str ''src/b.js'', file_status = str ''added'', file_additions = 12,
        file_deletions = 0 \<rparr>]"

section \<open>The claims about the ticket detail fetcher\<close>

text \<open>
  The answers to the request that make the \<^verbatim>\<open>try\<close> block throw: a rejected request
  (a status outside 2xx, a network error), and a response that is malformed for the
  code, which reads \<^verbatim>\<open>issue.fields\<close>, \<^verbatim>\<open>issue.fields.status.name\<close> and
  \<^verbatim>\<open>issue.fields.issuetype.name\<close> without a guard.
\<close>

definition malformed :: "issue js \<Rightarrow> bool" where
  "malformed data =
     (case data of
        Val issue \<Rightarrow>
          (case i_fields issue of
             Val fs \<Rightarrow>
               (case f_status fs of
                  Val s \<Rightarrow> (case f_issuetype fs of Val t \<Rightarrow> False | _ \<Rightarrow> True)
                | _ \<Rightarrow> True)
           | _ \<Rightarrow> True)
      | _ \<Rightarrow> True)"

definition fetch_fails :: "'w io \<Rightarrow> jsstring \<Rightarrow> 'w \<Rightarrow> bool" where
  "fetch_fails io ticketId w =
     (case fst (jira_get io (jiraApiUrl ticketId) (jira_headers (JIRA_API_TOKEN io)) w) of
        Inl e \<Rightarrow> True
      | Inr data \<Rightarrow> malformed data)"

lemma ticket_of_issue_malformed:
  "malformed data \<Longrightarrow> \<exists>e. ticket_of_issue ticketId data = Inl e"
  by (auto simp: malformed_def ticket_of_issue_def object_of_def Let_def split: js.splits)

lemma ticket_of_issue_wellformed:
  "\<not> malformed data \<Longrightarrow> \<exists>r. ticket_of_issue ticketId data = Inr r \<and> success r"
  by (auto simp: malformed_def ticket_of_issue_def object_of_def Let_def split: js.splits)

lemma get_jira_ticket_details_fails:
  assumes "fetch_fails io ticketId w"
  shows "\<exists>e. fst (get_jira_ticket_details io ticketId w) = fallback_response ticketId e"
proof (cases "jira_get io (jiraApiUrl ticketId) (jira_headers (JIRA_API_TOKEN io)) w")
  case (Pair r w')
  show ?thesis
  proof (cases r)
    case (Inl e)
    with Pair have "fst (get_jira_ticket_details io ticketId w) = fallback_response ticketId e"
      by (simp add: get_jira_ticket_details_def get_jira_ticket_details_try_def)
    then show ?thesis by blast
  next
    case (Inr data)
    with Pair assms have "malformed data" by (simp add: fetch_fails_def)
    from ticket_of_issue_malformed [OF this] obtain e
      where "ticket_of_issue ticketId data = Inl e" by blast
    with Pair Inr have "fst (get_jira_ticket_details io ticketId w) = fallback_response ticketId e"
      by (simp add: get_jira_ticket_details_def get_jira_ticket_details_try_def)
    then show ?thesis by blast
  qed
qed

lemma get_jira_ticket_details_succeeds:
  assumes "\<not> fetch_fails io ticketId w"
  shows "success (fst (get_jira_ticket_details io ticketId w))"
proof (cases "jira_get io (jiraApiUrl ticketId) (jira_headers (JIRA_API_TOKEN io)) w")
  case (Pair r w')
  show ?thesis
  proof (cases r)
    case (Inl e)
    with Pair assms show ?thesis by (simp add: fetch_fails_def)
  next
    case (Inr data)
    with Pair assms have "\<not> malformed data" by (simp add: fetch_fails_def)
    from ticket_of_issue_wellformed [OF this] obtain r'
      where "ticket_of_issue ticketId data = Inr r'" "success r'" by blast
    with Pair Inr show ?thesis
      by (simp add: get_jira_ticket_details_def get_jira_ticket_details_try_def)
  qed
qed

text \<open>
  Claim C5. The tool function always returns an object (the model is a total function
  whose result has no exception). When the fetch fails, by a rejected request such as a
  404 or a network error or by a malformed response, the object is the one of the
  \<^verbatim>\<open>catch\<close> block: \<^verbatim>\<open>success\<close> is false and the ticket is a placeholder whose key is
  the requested id, whose status is \<^verbatim>\<open>Unknown\<close> and whose list of Figma links is empty.
  Otherwise \<^verbatim>\<open>success\<close> is true.
\<close>

theorem get_jira_ticket_details_placeholder_on_failure:
  "(fetch_fails io ticketId w \<longrightarrow>
      \<not> success (fst (get_jira_ticket_details io ticketId w))
      \<and> key (ticket (fst (get_jira_ticket_details io ticketId w))) = Val ticketId
      \<and> status (ticket (fst (get_jira_ticket_details io ticketId w))) = Val (str ''Unknown'')
      \<and> figmaLinks (ticket (fst (get_jira_ticket_details io ticketId w))) = []
      \<and> (\<exists>e. fst (get_jira_ticket_details io ticketId w) = fallback_response ticketId e))
   \<and> (\<not> fetch_fails io ticketId w \<longrightarrow> success (fst (get_jira_ticket_details io ticketId w)))"
proof (intro conjI impI)
  assume "fetch_fails io ticketId w"
  from get_jira_ticket_details_fails [OF this] obtain e
    where r: "fst (get_jira_ticket_details io ticketId w) = fallback_response ticketId e" by blast
  show "\<not> success (fst (get_jira_ticket_details io ticketId w))"
    by (simp add: r fallback_response_def)
  show "key (ticket (fst (get_jira_ticket_details io ticketId w))) = Val ticketId"
    by (simp add: r fallback_response_def)
  show "status (ticket (fst (get_jira_ticket_details io ticketId w))) = Val (str ''Unknown'')"
    by (simp add: r fallback_response_def)
  show "figmaLinks (ticket (fst (get_jira_ticket_details io ticketId w))) = []"
    by (simp add: r fallback_response_def)
  show "\<exists>e. fst (get_jira_ticket_details io ticketId w) = fallback_response ticketId e"
    using r by blast
next
  assume "\<not> fetch_fails io ticketId w"
  then show "success (fst (get_jira_ticket_details io ticketId w))"
    by (rule get_jira_ticket_details_succeeds)
qed

text \<open>
  A tracker that answers 404 to every request, and one that answers with an issue whose
  summary ends in a Figma link and whose description names the same link twice.
\<close>

definition jira_404 :: "unit io" where
  "jira_404 =
     no_network \<lparr> jira_get :=
       (\<lambda>u h w. (Inl (JsError (str ''AxiosError'') (str ''Request failed with status code 404'')), w)) \<rparr>"

definition login_issue :: issue where
  "login_issue =
     \<lparr> i_key = Val (str ''ABC-123''),
       i_fields = Val
         \<lparr> f_summary = Val (str ''Login https://www.figma.com/file/abc123/Login''),
           f_description = Val (str ''Flow: https://figma.com/design/Z9/Flow?node-id=1 and https://figma.com/design/Z9/Flow''),
           f_status = Val \<lparr> name = Val (str ''Open'') \<rparr>,
           f_priority = Null,
           f_assignee = Null,
           f_reporter = Val \<lparr> displayName = Val (str ''Sid'') \<rparr>,
           f_issuetype = Val \<lparr> name = Val (str ''Story'') \<rparr>,
           f_created = Val (str ''2025-01-01T00:00:00.000+0000''),
           f_updated = Val (str ''2025-01-02T00:00:00.000+0000''),
           f_labels = Val [str ''ui''],
           f_components = Val [\<lparr> name = Val (str ''Web'') \<rparr>],
           f_fixVersions = Undefined \<rparr> \<rparr>"

definition jira_login :: "unit io" where
  "jira_login = no_network \<lparr> jira_get := (\<lambda>u h w. (Inr (Val login_issue), w)) \<rparr>"

lemma fetch_fails_jira_404: "fetch_fails jira_404 (str ''ABC-123'') ()"
  by (simp add: fetch_fails_def jira_404_def)

lemma not_fetch_fails_jira_login: "\<not> fetch_fails jira_login (str ''ABC-123'') ()"
  by (simp add: fetch_fails_def jira_login_def malformed_def login_issue_def)

theorem get_jira_ticket_details_placeholder_on_failure_witness:
  "fetch_fails jira_404 (str ''ABC-123'') ()
   \<and> \<not> success (fst (get_jira_ticket_details jira_404 (str ''ABC-123'') ()))
   \<and> key (ticket (fst (get_jira_ticket_details jira_404 (str ''ABC-123'') ()))) = Val (str ''ABC-123'')
   \<and> status (ticket (fst (get_jira_ticket_details jira_404 (str ''ABC-123'') ()))) = Val (str ''Unknown'')
   \<and> figmaLinks (ticket (fst (get_jira_ticket_details jira_404 (str ''ABC-123'') ()))) = []
   \<and> \<not> fetch_fails jira_login (str ''ABC-123'') ()
   \<and> success (fst (get_jira_ticket_details jira_login (str ''ABC-123'') ()))"
  using get_jira_ticket_details_placeholder_on_failure [of jira_404 "str ''ABC-123''" "()"]
    get_jira_ticket_details_placeholder_on_failure [of jira_login "str ''ABC-123''" "()"]
    fetch_fails_jira_404 not_fetch_fails_jira_login
  by blast

lemma figmaRegex_nonempty: "rmatch figmaRegex p s \<noteq> Some 0"
proof
  assume m: "rmatch figmaRegex p s = Some 0"
  obtain r where "figmaRegex = Cls (is_char CHR ''h'') # r"
    by (simp add: figmaRegex_def Lit_def)
  with m rmatch_Cls [of "is_char CHR ''h''" r p s 0] show False by simp
qed

lemma extractFigmaLinks_allText:
  "extractFigmaLinks (allText a b) = match_all figmaRegex None (a @ [0x20] @ b)"
  by (simp add: extractFigmaLinks_def allText_def)

lemma ticket_of_issue_figmaLinks:
  assumes "ticket_of_issue ticketId (Val issue) = Inr r" and "i_fields issue = Val fs"
  shows "figmaLinks (ticket r) =
     match_all figmaRegex None
       (or_string (f_summary fs) [] @ [0x20]
          @ or_string (f_description fs) (str ''No description provided''))"
  using assms
  by (auto simp: ticket_of_issue_def object_of_def Let_def extractFigmaLinks_allText
      split: js.splits sum.splits)

text \<open>
  Claim C8 as it is stated fails: the text that is scanned is not the concatenation of
  summary and description. On the issue \<open>login_issue\<close>, whose summary ends in a link
  and whose description starts with \<^verbatim>\<open>Flow\<close>, the first link of the ticket ends in
  \<^verbatim>\<open>/Login\<close>, and the first match in the concatenation ends in \<^verbatim>\<open>/LoginFlow:\<close>.
\<close>

theorem figmaLinks_not_of_concatenation:
  "figmaLinks (ticket (fst (get_jira_ticket_details jira_login (str ''ABC-123'') ())))
   \<noteq> match_all figmaRegex None
       (str ''Login https://www.figma.com/file/abc123/Login''
        @ str ''Flow: https://figma.com/design/Z9/Flow?node-id=1 and https://figma.com/design/Z9/Flow'')"
  by code_simp

text \<open>
  Claim C8, amended. For every ticket that is fetched with success, \<^verbatim>\<open>figmaLinks\<close> is
  the list of all the matches of the design-tool pattern, from left to right and without
  overlap, in the text made of the summary (the empty text when it is absent), one
  space, and the description (\<^verbatim>\<open>No description provided\<close> when it is absent or
  empty). Each match is an element of the list, so a link that the text names twice is
  twice in it.
\<close>

theorem figmaLinks_all_matches_in_order:
  "jira_get io (jiraApiUrl ticketId) (jira_headers (JIRA_API_TOKEN io)) w = (Inr (Val issue), w')
   \<Longrightarrow> i_fields issue = Val fs
   \<Longrightarrow> success (fst (get_jira_ticket_details io ticketId w))
   \<Longrightarrow> figmaLinks (ticket (fst (get_jira_ticket_details io ticketId w)))
         = match_all figmaRegex None
             (or_string (f_summary fs) [] @ [0x20]
                @ or_string (f_description fs) (str ''No description provided''))
       \<and> scans figmaRegex None
             (or_string (f_summary fs) [] @ [0x20]
                @ or_string (f_description fs) (str ''No description provided''))
             (figmaLinks (ticket (fst (get_jira_ticket_details io ticketId w))))
       \<and> extractFigmaLinks (str ''https://figma.com/file/a1/b https://figma.com/file/a1/b'')
           = [str ''https://figma.com/file/a1/b'', str ''https://figma.com/file/a1/b'']"
proof -
  assume get: "jira_get io (jiraApiUrl ticketId) (jira_headers (JIRA_API_TOKEN io)) w
      = (Inr (Val issue), w')"
    and fs: "i_fields issue = Val fs"
    and ok: "success (fst (get_jira_ticket_details io ticketId w))"
  let ?text = "or_string (f_summary fs) [] @ [0x20]
      @ or_string (f_description fs) (str ''No description provided'')"
  obtain r where r: "ticket_of_issue ticketId (Val issue) = Inr r"
    using ok get
    by (cases "ticket_of_issue ticketId (Val issue)")
       (simp_all add: get_jira_ticket_details_def get_jira_ticket_details_try_def
          fallback_response_def)
  then have res: "fst (get_jira_ticket_details io ticketId w) = r"
    using get by (simp add: get_jira_ticket_details_def get_jira_ticket_details_try_def)
  have links: "figmaLinks (ticket r) = match_all figmaRegex None ?text"
    by (rule ticket_of_issue_figmaLinks [OF r fs])
  have "scans figmaRegex None ?text (match_all figmaRegex None ?text)"
    by (rule match_all_scans) (simp add: figmaRegex_nonempty)
  moreover have "extractFigmaLinks (str ''https://figma.com/file/a1/b https://figma.com/file/a1/b'')
           = [str ''https://figma.com/file/a1/b'', str ''https://figma.com/file/a1/b'']"
    by code_simp
  ultimately show ?thesis using links res by simp
qed

lemma jira_login_get:
  "jira_get jira_login (jiraApiUrl (str ''ABC-123'')) (jira_headers (JIRA_API_TOKEN jira_login)) ()
     = (Inr (Val login_issue), ())"
  by (simp add: jira_login_def)

lemma login_issue_fields:
  "i_fields login_issue = Val
         \<lparr> f_summary = Val (str ''Login https://www.figma.com/file/abc123/Login''),
           f_description = Val (str ''Flow: https://figma.com/design/Z9/Flow?node-id=1 and https://figma.com/design/Z9/Flow''),
           f_status = Val \<lparr> name = Val (str ''Open'') \<rparr>,
           f_priority = Null,
           f_assignee = Null,
           f_reporter = Val \<lparr> displayName = Val (str ''Sid'') \<rparr>,
           f_issuetype = Val \<lparr> name = Val (str ''Story'') \<rparr>,
           f_created = Val (str ''2025-01-01T00:00:00.000+0000''),
           f_updated = Val (str ''2025-01-02T00:00:00.000+0000''),
           f_labels = Val [str ''ui''],
           f_components = Val [\<lparr> name = Val (str ''Web'') \<rparr>],
           f_fixVersions = Undefined \<rparr>"
  by (simp add: login_issue_def)

lemma login_links:
  "figmaLinks (ticket (fst (get_jira_ticket_details jira_login (str ''ABC-123'') ())))
     = [str ''https://www.figma.com/file/abc123/Login'', str ''https://figma.com/design/Z9/Flow'',
        str ''https://figma.com/design/Z9/Flow'']"
  by code_simp

theorem figmaLinks_all_matches_in_order_witness:
  "jira_get jira_login (jiraApiUrl (str ''ABC-123'')) (jira_headers (JIRA_API_TOKEN jira_login)) ()
     = (Inr (Val login_issue), ())
   \<and> success (fst (get_jira_ticket_details jira_login (str ''ABC-123'') ()))
   \<and> figmaLinks (ticket (fst (get_jira_ticket_details jira_login (str ''ABC-123'') ())))
       = [str ''https://www.figma.com/file/abc123/Login'', str ''https://figma.com/design/Z9/Flow'',
          str ''https://figma.com/design/Z9/Flow'']
   \<and> scans figmaRegex None
       (str ''Login https://www.figma.com/file/abc123/Login'' @ [0x20]
        @ str ''Flow: https://figma.com/design/Z9/Flow?node-id=1 and https://figma.com/design/Z9/Flow'')
       [str ''https://www.figma.com/file/abc123/Login'', str ''https://figma.com/design/Z9/Flow'',
        str ''https://figma.com/design/Z9/Flow'']"
proof -
  have ok: "success (fst (get_jira_ticket_details jira_login (str ''ABC-123'') ()))"
    by (rule get_jira_ticket_details_succeeds [OF not_fetch_fails_jira_login])
  have s: "or_string (Val (str ''Login https://www.figma.com/file/abc123/Login'')) []
      = str ''Login https://www.figma.com/file/abc123/Login''"
    by (simp add: or_string_def str_def)
  have d: "or_string (Val (str ''Flow: https://figma.com/design/Z9/Flow?node-id=1 and https://figma.com/design/Z9/Flow''))
        (str ''No description provided'')
      = str ''Flow: https://figma.com/design/Z9/Flow?node-id=1 and https://figma.com/design/Z9/Flow''"
    by (simp add: or_string_def str_def)
  have "scans figmaRegex None
       (str ''Login https://www.figma.com/file/abc123/Login'' @ [0x20]
        @ str ''Flow: https://figma.com/design/Z9/Flow?node-id=1 and https://figma.com/design/Z9/Flow'')
       (figmaLinks (ticket (fst (get_jira_ticket_details jira_login (str ''ABC-123'') ()))))"
    using figmaLinks_all_matches_in_order [OF jira_login_get login_issue_fields ok]
    unfolding issue_fields.select_convs s d
    by (rule conjunct2 [THEN conjunct1])
  then show ?thesis
    using jira_login_get ok login_links by (simp only: simp_thms)
qed

section \<open>The claim about the narrative generator\<close>

text \<open>
  The templated bundle, as a function of the two branch names and of the three counts
  (number of files, additions, deletions).
\<close>

definition templated_bundle :: "jsstring \<Rightarrow> jsstring \<Rightarrow> nat \<Rightarrow> int \<Rightarrow> int \<Rightarrow> narrative" where
  "templated_bundle head base files adds dels =
     \<lparr> detailedSummary =
         str ''This PR introduces changes from `'' @ head @ str ''` to `'' @ base
         @ str ''` branch with '' @ show_nat files @ str '' files modified ('' @ show_int adds
         @ str '' additions, '' @ show_int dels @ str '' deletions).'',
       keyChanges =
         [0x2022] @ str '' Modified '' @ show_nat files @ str '' files with '' @ show_int adds
         @ str '' additions and '' @ show_int dels @ str '' deletions'',
       motivationContext =
         str ''This change addresses the requirements specified in the JIRA ticket(s) mentioned below. The modifications improve system functionality and user experience.'' \<rparr>"

lemma fallback_narrative_templated:
  "fallback_narrative filesChanged st head base =
     templated_bundle head base (length filesChanged) (additions st) (deletions st)"
  by (simp add: fallback_narrative_def templated_bundle_def)

text \<open>
  Claim C1 as it is stated fails in one point: the templated bundle is not built from
  the counts alone. With no file, no addition and no deletion in both cases, and a
  backend that rejects the first request, the summaries for the head branches
  \<^verbatim>\<open>feature-a\<close> and \<^verbatim>\<open>feature-b\<close> differ: the template names the two branches.
\<close>

theorem fallback_not_from_counts_alone:
  "detailedSummary (fst (generateDetailedSummary no_network []
       \<lparr> additions = 0, deletions = 0, total = 0 \<rparr> (str ''feature-a'') (str ''main'') [] [] ()))
   \<noteq> detailedSummary (fst (generateDetailedSummary no_network []
       \<lparr> additions = 0, deletions = 0, total = 0 \<rparr> (str ''feature-b'') (str ''main'') [] [] ()))"
  by (simp add: generateDetailedSummary_def generateDetailedSummary_try_def jira_context_def
      getLLMClient_def getAIConfig_def missing_def or_string_def
      no_network_def fallback_narrative_def str_def)

text \<open>
  Claim C1, amended. The three requests are made one after the other, each in the world
  that the one before it left. When all three are answered, the bundle is made of the
  three answers; when any of them is rejected, the bundle is the templated one, built
  from the two branch names and the counts (number of files, additions, deletions), and
  holds no answer of the backend. It is the templated one as well when the client cannot
  be made. There is no other case: the bundle never mixes an answer with templated text.
\<close>

theorem generateDetailedSummary_all_or_nothing:
  "(case getLLMClient io of
      Inl e \<Rightarrow>
        fst (generateDetailedSummary io filesChanged st head base jiraTickets customBody w)
          = templated_bundle head base (length filesChanged) (additions st) (deletions st)
    | Inr llm \<Rightarrow>
       (let fileSummary = lines (map (file_line io) filesChanged);
            customContext = customContext_of customBody;
            jiraContext = fst (fst (jira_context io jiraTickets w));
            jiraTicketDetails = snd (fst (jira_context io jiraTickets w));
            first = llm_invoke io (descriptionPrompt head base filesChanged st jiraContext
                      jiraTicketDetails customContext fileSummary) (snd (jira_context io jiraTickets w));
            second = llm_invoke io (keyChangesPrompt head base filesChanged st jiraContext
                      jiraTicketDetails customContext fileSummary) (snd first);
            third = llm_invoke io (motivationPrompt head base filesChanged st jiraContext
                      jiraTicketDetails customContext fileSummary) (snd second);
            bundle = fst (generateDetailedSummary io filesChanged st head base jiraTickets customBody w)
        in case (fst first, fst second, fst third) of
             (Inr descriptionResponse, Inr keyChangesResponse, Inr motivationResponse) \<Rightarrow>
               bundle = \<lparr> detailedSummary = content descriptionResponse,
                          keyChanges = content keyChangesResponse,
                          motivationContext = content motivationResponse \<rparr>
           | _ \<Rightarrow>
               bundle = templated_bundle head base (length filesChanged) (additions st) (deletions st)))"
  by (simp add: generateDetailedSummary_def generateDetailedSummary_try_def Let_def
      fallback_narrative_templated split: prod.splits sum.splits)

text \<open>
  A backend that counts its requests, answers the first one and rejects the second one:
  the answer to the first request is not in the bundle.
\<close>

definition second_rejected :: "nat io" where
  "second_rejected =
     \<lparr> jira_get = (\<lambda>u h n. (Inl (JsError (str ''AxiosError'') (str ''Network Error'')), n)),
       compare_get = (\<lambda>u h n. (Inl (JsError (str ''AxiosError'') (str ''Network Error'')), n)),
       llm_invoke = (\<lambda>p n. (if n = 1 then Inl (JsError (str ''Error'') (str ''429 Too Many Requests''))
                                else Inr \<lparr> content = str ''Adds the login page.'' \<rparr>, n + 1)),
       JIRA_API_TOKEN = Undefined,
       GITHUB_TOKEN = Val (str ''t0ken''),
       AI_USERNAME = Val (str ''sid''),
       AI_BASE_URL = Val (str ''https://llm.example/v1''),
       AI_API_KEY = Val (str ''k3y''),
       AI_MODEL = Val (str ''gpt''),
       toLowerCase = (\<lambda>s. s),
       toUpperCase = (\<lambda>s. s) \<rparr>"

theorem generateDetailedSummary_all_or_nothing_witness:
  "fst (llm_invoke second_rejected
          (descriptionPrompt (str ''feature-a'') (str ''main'') two_files
             \<lparr> additions = 12, deletions = 0, total = 12 \<rparr> (str ''No JIRA tickets found in branch name'')
             [] [] (lines (map (file_line second_rejected) two_files))) 0)
     = Inr \<lparr> content = str ''Adds the login page.'' \<rparr>
   \<and> fst (generateDetailedSummary second_rejected two_files
            \<lparr> additions = 12, deletions = 0, total = 12 \<rparr> (str ''feature-a'') (str ''main'') [] [] 0)
       = templated_bundle (str ''feature-a'') (str ''main'') 2 12 0"
proof -
  have len: "length two_files = 2" by (simp add: two_files_def)
  have 1: "jira_context second_rejected [] (0::nat)
      = ((str ''No JIRA tickets found in branch name'', []), 0)"
    by (simp add: jira_context_def)
  have 2: "customContext_of [] = []" by (simp add: customContext_of_def)
  have 4: "\<exists>llm. getLLMClient second_rejected = Inr llm"
    by (simp add: getLLMClient_def getAIConfig_def missing_def or_string_def
        second_rejected_def str_def)
  have 3: "llm_invoke second_rejected p n
      = (if n = 1 then Inl (JsError (str ''Error'') (str ''429 Too Many Requests''))
         else Inr \<lparr> content = str ''Adds the login page.'' \<rparr>, n + 1)" for p n
    by (simp add: second_rejected_def)
  from generateDetailedSummary_all_or_nothing [where io = second_rejected
      and filesChanged = two_files and jiraTickets = "[]" and customBody = "[]" and w = 0
      and head = "str ''feature-a''" and base = "str ''main''"
      and st = "\<lparr> additions = 12, deletions = 0, total = 12 \<rparr>"]
  show ?thesis
    using 4 by (auto simp: Let_def 1 2 3 len)
qed

section \<open>The claims about the composed description\<close>

lemma analyzeCodeDiff_compared:
  assumes "compare_get io (compareUrl owner repo head base) (getGitHubHeaders token) w
      = (Inr (Val cd), w1)"
    and "generateDetailedSummary io (or_array (cd_files cd)) (or_stats (cd_stats cd)) head base
        (extractJiraTickets head) body w1 = (bundle, w2)"
  shows "fst (analyzeCodeDiff io owner repo head base token body w) =
     enhancedDescription (detailedSummary bundle) (keyChanges bundle) (motivationContext bundle)
       (jiraSection_of (allJiraTickets_of (detailedSummary bundle) head))
       (fst (figmaSection_of io (allJiraTickets_of (detailedSummary bundle) head) w2))
       (changeAnalysis_of (or_array (cd_files cd)))"
  using assms
  by (simp add: analyzeCodeDiff_def analyzeCodeDiff_try_def object_of_def Let_def
      split: prod.splits)

lemma analyzeCodeDiff_not_compared:
  assumes "\<And>cd. fst (compare_get io (compareUrl owner repo head base) (getGitHubHeaders token) w)
      \<noteq> Inr (Val cd)"
  shows "fst (analyzeCodeDiff io owner repo head base token body w) = fallback_description head base"
  using assms
  by (cases "compare_get io (compareUrl owner repo head base) (getGitHubHeaders token) w")
     (auto simp: analyzeCodeDiff_def analyzeCodeDiff_try_def object_of_def
       split: sum.splits js.splits)

lemma set_allJiraTickets_of:
  "set (allJiraTickets_of summary_text head)
     = set (extractJiraTickets summary_text) \<union> set (extractJiraTickets head)"
  by (simp add: allJiraTickets_of_def set_new_Set)

lemma distinct_allJiraTickets_of: "distinct (allJiraTickets_of summary_text head)"
  by (simp add: allJiraTickets_of_def distinct_new_Set)

text \<open>
  Claim C2. When the comparison of the branches is fetched, the description is the
  template filled with the generated bundle, and its JIRA section is one bullet for each
  element of a list of tickets without duplicates (the placeholder comment when the list
  is empty); the tickets of that list are exactly those extracted from the generated
  summary text and those extracted from the name of the head branch. When the
  comparison is not fetched, the description is the static one, whose JIRA section is
  the placeholder comment and names no ticket.
\<close>

theorem analyzeCodeDiff_jira_section_tickets:
  "(case fst (compare_get io (compareUrl owner repo head base) (getGitHubHeaders token) w) of
      Inr (Val cd) \<Rightarrow>
        (let bundle = fst (generateDetailedSummary io (or_array (cd_files cd))
                (or_stats (cd_stats cd)) head base (extractJiraTickets head) body
                (snd (compare_get io (compareUrl owner repo head base) (getGitHubHeaders token) w)));
             tickets = allJiraTickets_of (detailedSummary bundle) head;
             jiraSection =
               (if tickets = [] then str ''<!-- Please add Jira Link here -->''
                else lines (map (\<lambda>t. str ''- ['' @ t @ str ''](https://jira2.workday.com/browse/''
                                   @ t @ str '')'') tickets))
         in (\<exists>figmaSection changeAnalysis.
               fst (analyzeCodeDiff io owner repo head base token body w) =
                 enhancedDescription (detailedSummary bundle) (keyChanges bundle)
                   (motivationContext bundle) jiraSection figmaSection changeAnalysis)
            \<and> distinct tickets
            \<and> set tickets
                = set (extractJiraTickets (detailedSummary bundle)) \<union> set (extractJiraTickets head))
    | _ \<Rightarrow> fst (analyzeCodeDiff io owner repo head base token body w)
             = fallback_description head base)"
proof (cases "compare_get io (compareUrl owner repo head base) (getGitHubHeaders token) w")
  case (Pair r w1)
  show ?thesis
  proof (cases "\<exists>cd. r = Inr (Val cd)")
    case True
    then obtain cd where r: "r = Inr (Val cd)" by blast
    obtain narr w2 where g: "generateDetailedSummary io (or_array (cd_files cd))
        (or_stats (cd_stats cd)) head base (extractJiraTickets head) body w1 = (narr, w2)"
      by (cases "generateDetailedSummary io (or_array (cd_files cd))
        (or_stats (cd_stats cd)) head base (extractJiraTickets head) body w1")
    have s: "jiraSection_of ts =
        (if ts = [] then str ''<!-- Please add Jira Link here -->''
         else lines (map (\<lambda>t. str ''- ['' @ t @ str ''](https://jira2.workday.com/browse/''
                            @ t @ str '')'') ts))" for ts
      by (simp add: jiraSection_of_def getJiraUrl_def str_def)
    from analyzeCodeDiff_compared [OF _ g, of owner repo token w] Pair r
    have "fst (analyzeCodeDiff io owner repo head base token body w) =
       enhancedDescription (detailedSummary narr) (keyChanges narr) (motivationContext narr)
         (jiraSection_of (allJiraTickets_of (detailedSummary narr) head))
         (fst (figmaSection_of io (allJiraTickets_of (detailedSummary narr) head) w2))
         (changeAnalysis_of (or_array (cd_files cd)))"
      by simp
    then have "\<exists>figmaSection changeAnalysis.
       fst (analyzeCodeDiff io owner repo head base token body w) =
         enhancedDescription (detailedSummary narr) (keyChanges narr) (motivationContext narr)
           (jiraSection_of (allJiraTickets_of (detailedSummary narr) head))
           figmaSection changeAnalysis"
      by blast
    then show ?thesis
      using Pair r g
      by (simp add: Let_def s [symmetric] distinct_allJiraTickets_of set_allJiraTickets_of)
  next
    case False
    then have "fst (analyzeCodeDiff io owner repo head base token body w)
        = fallback_description head base"
      using Pair by (intro analyzeCodeDiff_not_compared) simp
    then show ?thesis
      using Pair False by (auto split: sum.splits js.splits)
  qed
qed

text \<open>
  A comparison with the two files of \<open>two_files\<close> and a backend whose every answer
  names the ticket \<^verbatim>\<open>ABC-1\<close>; the head branch names the ticket \<^verbatim>\<open>XY-2\<close>.
\<close>

definition two_files_compared :: "unit io" where
  "two_files_compared =
     no_network \<lparr>
       compare_get := (\<lambda>u h w. (Inr (Val \<lparr> cd_files = Val two_files, cd_stats = Undefined \<rparr>), w)),
       llm_invoke := (\<lambda>p w. (Inr \<lparr> content = str ''Implements ABC-1 login'' \<rparr>, w)) \<rparr>"

lemma two_files_compared_summary:
  "generateDetailedSummary two_files_compared fs st head base ts body ()
     = (\<lparr> detailedSummary = str ''Implements ABC-1 login'',
          keyChanges = str ''Implements ABC-1 login'',
          motivationContext = str ''Implements ABC-1 login'' \<rparr>, ())"
  by (simp add: generateDetailedSummary_def generateDetailedSummary_try_def Let_def
      getLLMClient_def getAIConfig_def missing_def or_string_def
      two_files_compared_def no_network_def str_def split: prod.splits)

lemma two_tickets:
  "allJiraTickets_of (str ''Implements ABC-1 login'') (str ''XY-2-feature'')
     = [str ''ABC-1'', str ''XY-2'']"
  by code_simp

theorem analyzeCodeDiff_jira_section_tickets_witness:
  "fst (compare_get two_files_compared
          (compareUrl (str ''o'') (str ''r'') (str ''XY-2-feature'') (str ''main''))
          (getGitHubHeaders (str ''t0ken'')) ())
     = Inr (Val \<lparr> cd_files = Val two_files, cd_stats = Undefined \<rparr>)
   \<and> extractJiraTickets (str ''Implements ABC-1 login'') = [str ''ABC-1'']
   \<and> extractJiraTickets (str ''XY-2-feature'') = [str ''XY-2'']
   \<and> (\<exists>figmaSection changeAnalysis.
         fst (analyzeCodeDiff two_files_compared (str ''o'') (str ''r'') (str ''XY-2-feature'')
                (str ''main'') (str ''t0ken'') [] ())
         = enhancedDescription (str ''Implements ABC-1 login'') (str ''Implements ABC-1 login'')
             (str ''Implements ABC-1 login'')
             (lines [str ''- ['' @ str ''ABC-1'' @ str ''](https://jira2.workday.com/browse/''
                       @ str ''ABC-1'' @ str '')'',
                     str ''- ['' @ str ''XY-2'' @ str ''](https://jira2.workday.com/browse/''
                       @ str ''XY-2'' @ str '')''])
             figmaSection changeAnalysis)"
proof -
  have c: "compare_get two_files_compared u h () 
      = (Inr (Val \<lparr> cd_files = Val two_files, cd_stats = Undefined \<rparr>), ())" for u h
    by (simp add: two_files_compared_def)
  have ne: "[str ''ABC-1'', str ''XY-2''] \<noteq> []" by simp
  have 1: "extractJiraTickets (str ''Implements ABC-1 login'') = [str ''ABC-1'']" by code_simp
  have 2: "extractJiraTickets (str ''XY-2-feature'') = [str ''XY-2'']" by code_simp
  from analyzeCodeDiff_jira_section_tickets [where io = two_files_compared and owner = "str ''o''"
      and repo = "str ''r''" and head = "str ''XY-2-feature''" and base = "str ''main''"
      and token = "str ''t0ken''" and w = "()" and body = "[]"]
  have "\<exists>figmaSection changeAnalysis.
         fst (analyzeCodeDiff two_files_compared (str ''o'') (str ''r'') (str ''XY-2-feature'')
                (str ''main'') (str ''t0ken'') [] ())
         = enhancedDescription (str ''Implements ABC-1 login'') (str ''Implements ABC-1 login'')
             (str ''Implements ABC-1 login'')
             (lines [str ''- ['' @ str ''ABC-1'' @ str ''](https://jira2.workday.com/browse/''
                       @ str ''ABC-1'' @ str '')'',
                     str ''- ['' @ str ''XY-2'' @ str ''](https://jira2.workday.com/browse/''
                       @ str ''XY-2'' @ str '')''])
             figmaSection changeAnalysis"
    unfolding c fst_conv snd_conv sum.case js.case Let_def two_files_compared_summary
      narrative.select_convs two_tickets
    using ne by simp
  with c 1 2 show ?thesis by simp
qed

lemma show_nat_0: "show_nat 0 = str ''0''"
  by code_simp

text \<open>
  Claim C6. For a change-set without files the change-analysis block is the four lines
  of counts, each with the number 0, and nothing else: the histogram of file types is
  left out. It is the block of the description that is composed when the comparison
  lists no file.
\<close>

theorem empty_change_set_analysis:
  "changeAnalysis_of [] =
     lines [str ''- **New Files Added:** 0'', str ''- **Files Modified:** 0'',
            str ''- **Files Deleted:** 0'', str ''- **Total Files Changed:** 0'']
   \<and> (compare_get io (compareUrl owner repo head base) (getGitHubHeaders token) w
          = (Inr (Val cd), w')
        \<longrightarrow> or_array (cd_files cd) = []
        \<longrightarrow> (\<exists>summary_text keyChanges_text motivation_text jiraSection figmaSection.
               fst (analyzeCodeDiff io owner repo head base token body w) =
                 enhancedDescription summary_text keyChanges_text motivation_text jiraSection
                   figmaSection
                   (lines [str ''- **New Files Added:** 0'', str ''- **Files Modified:** 0'',
                           str ''- **Files Deleted:** 0'', str ''- **Total Files Changed:** 0''])))"
proof -
  have e: "changeAnalysis_of [] =
     lines [str ''- **New Files Added:** 0'', str ''- **Files Modified:** 0'',
            str ''- **Files Deleted:** 0'', str ''- **Total Files Changed:** 0'']"
    by (simp add: changeAnalysis_of_def fileTypes_of_def show_nat_0 str_def)
  have "\<exists>summary_text keyChanges_text motivation_text jiraSection figmaSection.
               fst (analyzeCodeDiff io owner repo head base token body w) =
                 enhancedDescription summary_text keyChanges_text motivation_text jiraSection
                   figmaSection (changeAnalysis_of [])"
    if cmp: "compare_get io (compareUrl owner repo head base) (getGitHubHeaders token) w
          = (Inr (Val cd), w')" and emp: "or_array (cd_files cd) = []"
  proof -
    obtain narr w2 where g: "generateDetailedSummary io (or_array (cd_files cd))
        (or_stats (cd_stats cd)) head base (extractJiraTickets head) body w' = (narr, w2)"
      by (cases "generateDetailedSummary io (or_array (cd_files cd))
        (or_stats (cd_stats cd)) head base (extractJiraTickets head) body w'")
    from analyzeCodeDiff_compared [OF cmp g] show ?thesis
      unfolding emp by blast
  qed
  then show ?thesis unfolding e [symmetric] by (simp add: e)
qed

text \<open>A comparison that lists no file.\<close>

definition nothing_compared :: "unit io" where
  "nothing_compared =
     no_network \<lparr>
       compare_get := (\<lambda>u h w. (Inr (Val \<lparr> cd_files = Val [], cd_stats = Undefined \<rparr>), w)) \<rparr>"

theorem empty_change_set_analysis_witness:
  "compare_get nothing_compared (compareUrl (str ''o'') (str ''r'') (str ''h'') (str ''b''))
       (getGitHubHeaders (str ''t0ken'')) ()
     = (Inr (Val \<lparr> cd_files = Val [], cd_stats = Undefined \<rparr>), ())
   \<and> or_array (cd_files \<lparr> cd_files = Val [] :: file_change list js, cd_stats = Undefined \<rparr>) = []
   \<and> (\<exists>summary_text keyChanges_text motivation_text jiraSection figmaSection.
         fst (analyzeCodeDiff nothing_compared (str ''o'') (str ''r'') (str ''h'') (str ''b'')
                (str ''t0ken'') [] ()) =
           enhancedDescription summary_text keyChanges_text motivation_text jiraSection
             figmaSection
             (lines [str ''- **New Files Added:** 0'', str ''- **Files Modified:** 0'',
                     str ''- **Files Deleted:** 0'', str ''- **Total Files Changed:** 0'']))"
proof -
  have c: "compare_get nothing_compared (compareUrl (str ''o'') (str ''r'') (str ''h'') (str ''b''))
       (getGitHubHeaders (str ''t0ken'')) ()
     = (Inr (Val \<lparr> cd_files = Val [], cd_stats = Undefined \<rparr>), ())"
    by (simp add: nothing_compared_def)
  have e: "or_array (cd_files \<lparr> cd_files = Val [] :: file_change list js, cd_stats = Undefined \<rparr>) = []"
    by (simp add: or_array_def)
  from empty_change_set_analysis [where io = nothing_compared and owner = "str ''o''"
      and repo = "str ''r''" and head = "str ''h''" and base = "str ''b''"
      and token = "str ''t0ken''" and w = "()" and w' = "()" and body = "[]"
      and cd = "\<lparr> cd_files = Val [], cd_stats = Undefined \<rparr>"]
    c e
  show ?thesis by blast
qed

section \<open>The claim about the counts of the change-analysis block\<close>

text \<open>The decimal numeral that a template literal prints for a length.\<close>

lemma numeral_value_snoc:
  "numeral_value (ds @ [c]) = 10 * numeral_value ds + uint (c - 0x30)"
  by (simp add: numeral_value_def)

lemma digit_of_nat:
  assumes "k < 10"
  shows "uint ((0x30 + of_nat k :: code_unit) - 0x30) = int k"
    and "is_digit (0x30 + of_nat k)"
proof -
  from assms have "k \<in> {0, 1, 2, 3, 4, 5, 6, 7, 8, 9}" by auto
  then show "uint ((0x30 + of_nat k :: code_unit) - 0x30) = int k"
    by auto
  from \<open>k \<in> _\<close> show "is_digit (0x30 + of_nat k)"
    by (auto simp: is_digit_def)
qed

lemma uint_digit: "k < 10 \<Longrightarrow> uint (of_nat k :: code_unit) = int k"
  using digit_of_nat(1) [of k] by simp

lemma digits_properties:
  "numeral_value (digits n) = int n \<and> digits n \<noteq> [] \<and> list_all is_digit (digits n)"
proof (induction n rule: digits.induct)
  case (1 n)
  show ?case
  proof (cases "n < 10")
    case True
    then show ?thesis
      by (subst (1 2 3) digits.simps) (simp add: numeral_value_def digit_of_nat uint_digit)
  next
    case False
    have m: "n mod 10 < 10" by simp
    from False "1.IH" have IH: "numeral_value (digits (n div 10)) = int (n div 10)"
      "list_all is_digit (digits (n div 10))" by simp_all
    have d: "digits n = digits (n div 10) @ [0x30 + of_nat (n mod 10)]"
      using False by (subst digits.simps) simp
    have "int n = 10 * int (n div 10) + int (n mod 10)"
      by (metis mult_div_mod_eq of_nat_add of_nat_mult of_nat_numeral)
    then show ?thesis
      unfolding d by (simp add: numeral_value_snoc IH digit_of_nat [OF m] uint_digit [OF m])
  qed
qed

lemma show_nat_decimal:
  "numeral_value (show_nat n) = int n \<and> show_nat n \<noteq> [] \<and> list_all is_digit (show_nat n)"
  by (simp add: show_nat_def digits_properties)

lemma two_files_analysis:
  "changeAnalysis_of two_files =
     lines [str ''- **New Files Added:** 1'', str ''- **Files Modified:** 0'',
            str ''- **Files Deleted:** 0'', str ''- **Total Files Changed:** 2'',
            [], str ''**File Type Analysis:**'', str ''- **.js:** 2 files'']"
  by code_simp

lemma two_files_compared_no_figma:
  "fst (figmaSection_of two_files_compared ts ()) = []"
  by (simp add: figmaSection_of_def get_jira_ticket_details_def get_jira_ticket_details_try_def
      fallback_response_def two_files_compared_def no_network_def)

text \<open>
  Claim C9. The change-analysis block is the four lines of counts, followed by nothing
  or by the histogram of file types on lines of its own: the numbers of files whose
  status is \<^verbatim>\<open>added\<close>, \<^verbatim>\<open>modified\<close> and \<^verbatim>\<open>removed\<close>, and the number of all files,
  each printed as its decimal numeral. A renamed file is counted in the last number
  only: with a renamed file among them, the three category counts add up to less than
  the total. The block is what \<^verbatim>\<open>analyzeCodeDiff\<close> puts under \<^verbatim>\<open>Change Analysis\<close>
  for the files of the comparison. For a renamed \<^verbatim>\<open>src/a.js\<close> and an added
  \<^verbatim>\<open>src/b.js\<close> the block reports 1, 0, 0 and 2.
\<close>

theorem renamed_files_counted_in_total_only:
  "(\<exists>tail. changeAnalysis_of filesChanged =
       lines [str ''- **New Files Added:** ''
                @ show_nat (length (filter (\<lambda>f. file_status f = str ''added'') filesChanged)),
              str ''- **Files Modified:** ''
                @ show_nat (length (filter (\<lambda>f. file_status f = str ''modified'') filesChanged)),
              str ''- **Files Deleted:** ''
                @ show_nat (length (filter (\<lambda>f. file_status f = str ''removed'') filesChanged)),
              str ''- **Total Files Changed:** '' @ show_nat (length filesChanged)] @ tail
     \<and> (tail = [] \<or> (\<exists>histogram. tail = lines [[], [], str ''**File Type Analysis:**'', histogram])))
   \<and> numeral_value (show_nat n) = int n \<and> show_nat n \<noteq> [] \<and> list_all is_digit (show_nat n)
   \<and> ((\<exists>f \<in> set filesChanged. file_status f = str ''renamed'') \<longrightarrow>
        length (filter (\<lambda>f. file_status f = str ''added'') filesChanged)
        + length (filter (\<lambda>f. file_status f = str ''modified'') filesChanged)
        + length (filter (\<lambda>f. file_status f = str ''removed'') filesChanged)
        < length filesChanged)
   \<and> (case fst (compare_get io (compareUrl owner repo head base) (getGitHubHeaders token) w) of
          Inr (Val cd) \<Rightarrow>
            (let generated = generateDetailedSummary io (or_array (cd_files cd))
                    (or_stats (cd_stats cd)) head base (extractJiraTickets head) body
                    (snd (compare_get io (compareUrl owner repo head base)
                            (getGitHubHeaders token) w));
                 tickets = allJiraTickets_of (detailedSummary (fst generated)) head
             in fst (analyzeCodeDiff io owner repo head base token body w) =
                  enhancedDescription (detailedSummary (fst generated)) (keyChanges (fst generated))
                    (motivationContext (fst generated)) (jiraSection_of tickets)
                    (fst (figmaSection_of io tickets (snd generated)))
                    (changeAnalysis_of (or_array (cd_files cd))))
        | _ \<Rightarrow> fst (analyzeCodeDiff io owner repo head base token body w)
                 = fallback_description head base)
   \<and> changeAnalysis_of two_files =
       lines [str ''- **New Files Added:** 1'', str ''- **Files Modified:** 0'',
              str ''- **Files Deleted:** 0'', str ''- **Total Files Changed:** 2'',
              [], str ''**File Type Analysis:**'', str ''- **.js:** 2 files'']"
proof -
  have D: "(case fst (compare_get io (compareUrl owner repo head base) (getGitHubHeaders token) w) of
          Inr (Val cd) \<Rightarrow>
            (let generated = generateDetailedSummary io (or_array (cd_files cd))
                    (or_stats (cd_stats cd)) head base (extractJiraTickets head) body
                    (snd (compare_get io (compareUrl owner repo head base)
                            (getGitHubHeaders token) w));
                 tickets = allJiraTickets_of (detailedSummary (fst generated)) head
             in fst (analyzeCodeDiff io owner repo head base token body w) =
                  enhancedDescription (detailedSummary (fst generated)) (keyChanges (fst generated))
                    (motivationContext (fst generated)) (jiraSection_of tickets)
                    (fst (figmaSection_of io tickets (snd generated)))
                    (changeAnalysis_of (or_array (cd_files cd))))
        | _ \<Rightarrow> fst (analyzeCodeDiff io owner repo head base token body w)
                 = fallback_description head base)"
  proof (cases "compare_get io (compareUrl owner repo head base) (getGitHubHeaders token) w")
    case (Pair r w1)
    show ?thesis
    proof (cases "\<exists>cd. r = Inr (Val cd)")
      case True
      then obtain cd where r: "r = Inr (Val cd)" by blast
      obtain narr w2 where g: "generateDetailedSummary io (or_array (cd_files cd))
          (or_stats (cd_stats cd)) head base (extractJiraTickets head) body w1 = (narr, w2)"
        by (cases "generateDetailedSummary io (or_array (cd_files cd))
          (or_stats (cd_stats cd)) head base (extractJiraTickets head) body w1")
      from analyzeCodeDiff_compared [OF _ g, of owner repo token w] Pair r
      show ?thesis by (simp add: Let_def g)
    next
      case False
      then have "fst (analyzeCodeDiff io owner repo head base token body w)
          = fallback_description head base"
        using Pair by (intro analyzeCodeDiff_not_compared) simp
      then show ?thesis
        using Pair False by (auto split: sum.splits js.splits)
    qed
  qed
  have C: "length (filter (\<lambda>f. file_status f = str ''added'') filesChanged)
        + length (filter (\<lambda>f. file_status f = str ''modified'') filesChanged)
        + length (filter (\<lambda>f. file_status f = str ''removed'') filesChanged)
        < length filesChanged"
    if "\<exists>f \<in> set filesChanged. file_status f = str ''renamed''"
    using count_status_renamed [OF that] by (simp add: count_status_def)
  show ?thesis
    using changeAnalysis_of_shape [of filesChanged] show_nat_decimal [of n] C D two_files_analysis
    by blast
qed

theorem renamed_files_counted_in_total_only_witness:
  "(\<exists>f \<in> set two_files. file_status f = str ''renamed'')
   \<and> length (filter (\<lambda>f. file_status f = str ''added'') two_files)
      + length (filter (\<lambda>f. file_status f = str ''modified'') two_files)
      + length (filter (\<lambda>f. file_status f = str ''removed'') two_files)
      < length two_files
   \<and> fst (analyzeCodeDiff two_files_compared (str ''o'') (str ''r'') (str ''XY-2-feature'')
            (str ''main'') (str ''t0ken'') [] ())
       = enhancedDescription (str ''Implements ABC-1 login'') (str ''Implements ABC-1 login'')
           (str ''Implements ABC-1 login'') (jiraSection_of [str ''ABC-1'', str ''XY-2'']) []
           (lines [str ''- **New Files Added:** 1'', str ''- **Files Modified:** 0'',
                   str ''- **Files Deleted:** 0'', str ''- **Total Files Changed:** 2'',
                   [], str ''**File Type Analysis:**'', str ''- **.js:** 2 files''])"
proof -
  have r: "\<exists>f \<in> set two_files. file_status f = str ''renamed''"
    by (simp add: two_files_def)
  have c: "compare_get two_files_compared u h ()
      = (Inr (Val \<lparr> cd_files = Val two_files, cd_stats = Undefined \<rparr>), ())" for u h
    by (simp add: two_files_compared_def)
  have f: "or_array (Val two_files) = two_files" by (simp add: or_array_def)
  note th = renamed_files_counted_in_total_only [where filesChanged = two_files
      and io = two_files_compared and owner = "str ''o''" and repo = "str ''r''"
      and head = "str ''XY-2-feature''" and base = "str ''main''" and token = "str ''t0ken''"
      and w = "()" and body = "[]" and n = 2]
  have "fst (analyzeCodeDiff two_files_compared (str ''o'') (str ''r'') (str ''XY-2-feature'')
            (str ''main'') (str ''t0ken'') [] ())
       = enhancedDescription (str ''Implements ABC-1 login'') (str ''Implements ABC-1 login'')
           (str ''Implements ABC-1 login'') (jiraSection_of [str ''ABC-1'', str ''XY-2'']) []
           (changeAnalysis_of two_files)"
    using th
    unfolding c fst_conv snd_conv sum.case js.case Let_def two_files_compared_summary
      narrative.select_convs compareData.select_convs two_tickets two_files_compared_no_figma f
    by blast
  moreover have "length (filter (\<lambda>f. file_status f = str ''added'') two_files)
      + length (filter (\<lambda>f. file_status f = str ''modified'') two_files)
      + length (filter (\<lambda>f. file_status f = str ''removed'') two_files)
      < length two_files"
    using th r by blast
  ultimately show ?thesis using r by (simp add: two_files_analysis)
qed

end
